theory Spec2Isabelle
  imports Complex_Main "HOL-Library.Sublist" "HOL-Library.Log_Nat"
begin

section \<open>JavaScript numbers and the conversions the handlers call\<close>

text \<open>
  The two handlers of \<^verbatim>\<open>controllers/productController.js\<close> that carry logic are
  \<^verbatim>\<open>getProducts\<close> and \<open>createProductReview\<close>; \<open>updateProduct\<close> is the partial
  update. They are JavaScript, so their numbers are the values of the Number type,
  the IEEE 754 doubles: a finite double, \<open>NaN\<close>, or one of the two infinities. A finite
  double is kept here as the rational it stands for, and every operation rounds its
  exact result to the nearest double, ties to the even significand. The sign of zero
  is not part of this model. Strings are lists of characters with codes below 256.
\<close>

datatype jsnum = NaN | Num rat | PosInf | NegInf

subsection \<open>Rounding to a double\<close>

definition pow2 :: "int \<Rightarrow> rat" where
  "pow2 e = (if 0 \<le> e then 2 ^ nat e else 1 / 2 ^ nat (- e))"

text \<open>For a positive \<open>a\<close>, the exponent \<open>e\<close> with \<open>2 ^ e \<le> a < 2 ^ (e + 1)\<close>.\<close>

definition floor_log2 :: "rat \<Rightarrow> int" where
  "floor_log2 a = (if 1 \<le> a then bitlen \<lfloor>a\<rfloor> - 1 else - bitlen (\<lceil>1 / a\<rceil> - 1))"

definition round_half_even :: "rat \<Rightarrow> int" where
  "round_half_even x =
     (let f = \<lfloor>x\<rfloor>; r = x - of_int f
      in if r < 1 / 2 then f
         else if 1 / 2 < r then f + 1
         else if even f then f else f + 1)"

text \<open>
  The double nearest to a rational. The significand has 53 bits; below the exponent
  \<open>-1022\<close> the doubles are evenly spaced (the subnormal ones); a result of \<open>2 ^ 1024\<close>
  or more is an infinity.
\<close>

definition round_double :: "rat \<Rightarrow> jsnum" where
  "round_double x =
     (if x = 0 then Num 0
      else
        let a = \<bar>x\<bar>;
            e = max (floor_log2 a) (- 1022);
            ulp = pow2 (e - 52);
            y = of_int (round_half_even (a / ulp)) * ulp
        in if pow2 1024 \<le> y then (if x < 0 then NegInf else PosInf)
           else Num (if x < 0 then - y else y))"

subsection \<open>The operators\<close>

fun js_neg :: "jsnum \<Rightarrow> jsnum" where
  "js_neg NaN = NaN"
| "js_neg (Num a) = Num (- a)"
| "js_neg PosInf = NegInf"
| "js_neg NegInf = PosInf"

text \<open>The operator \<open>+\<close> on two numbers.\<close>

fun js_add :: "jsnum \<Rightarrow> jsnum \<Rightarrow> jsnum" where
  "js_add NaN y = NaN"
| "js_add x NaN = NaN"
| "js_add (Num a) (Num b) = round_double (a + b)"
| "js_add PosInf NegInf = NaN"
| "js_add NegInf PosInf = NaN"
| "js_add PosInf y = PosInf"
| "js_add x PosInf = PosInf"
| "js_add NegInf y = NegInf"
| "js_add x NegInf = NegInf"

text \<open>The operator \<open>-\<close>.\<close>

definition js_sub :: "jsnum \<Rightarrow> jsnum \<Rightarrow> jsnum" where
  "js_sub x y = js_add x (js_neg y)"

fun sign_of :: "jsnum \<Rightarrow> int" where
  "sign_of NaN = 0"
| "sign_of (Num a) = (if 0 < a then 1 else if a < 0 then - 1 else 0)"
| "sign_of PosInf = 1"
| "sign_of NegInf = - 1"

text \<open>The operator \<open>*\<close>: an infinity times 0 is \<open>NaN\<close>.\<close>

fun js_mul :: "jsnum \<Rightarrow> jsnum \<Rightarrow> jsnum" where
  "js_mul NaN y = NaN"
| "js_mul x NaN = NaN"
| "js_mul (Num a) (Num b) = round_double (a * b)"
| "js_mul x y =
     (if sign_of x * sign_of y = 0 then NaN
      else if 0 < sign_of x * sign_of y then PosInf else NegInf)"

text \<open>The operator \<open>/\<close>.\<close>

fun js_div :: "jsnum \<Rightarrow> jsnum \<Rightarrow> jsnum" where
  "js_div NaN y = NaN"
| "js_div x NaN = NaN"
| "js_div (Num a) (Num b) =
     (if b = 0 then (if a = 0 then NaN else if 0 < a then PosInf else NegInf)
      else round_double (a / b))"
| "js_div (Num a) y = Num 0"
| "js_div x (Num b) = (if 0 \<le> b then x else js_neg x)"
| "js_div x y = NaN"

text \<open>\<open>Math.ceil\<close>, and the operator \<open><\<close>, which is false when an operand is \<open>NaN\<close>.\<close>

fun js_ceil :: "jsnum \<Rightarrow> jsnum" where
  "js_ceil (Num a) = Num (of_int \<lceil>a\<rceil>)"
| "js_ceil x = x"

fun js_lt :: "jsnum \<Rightarrow> jsnum \<Rightarrow> bool" where
  "js_lt NaN y = False"
| "js_lt x NaN = False"
| "js_lt (Num a) (Num b) = (a < b)"
| "js_lt PosInf y = False"
| "js_lt x PosInf = True"
| "js_lt x NegInf = False"
| "js_lt NegInf y = True"

subsection \<open>Characters and digits\<close>

text \<open>White space and line terminators that the numeric conversions strip.\<close>

definition is_space :: "char \<Rightarrow> bool" where
  "is_space c = ((of_char c :: nat) \<in> {9, 10, 11, 12, 13, 32, 160})"

text \<open>
  The value of a digit in any radix up to 36; 36 for a character that is no digit.
  \<open>digits_value\<close> is the exact integer that a run of digits denotes; the conversions
  round it.
\<close>

definition digit_val :: "char \<Rightarrow> nat" where
  "digit_val c =
     (let n = (of_char c :: nat)
      in if 48 \<le> n \<and> n \<le> 57 then n - 48
         else if 97 \<le> n \<and> n \<le> 122 then n - 87
         else if 65 \<le> n \<and> n \<le> 90 then n - 55
         else 36)"

definition is_digit_in :: "nat \<Rightarrow> char \<Rightarrow> bool" where
  "is_digit_in r c = (digit_val c < r)"

definition digits_value :: "nat \<Rightarrow> string \<Rightarrow> nat" where
  "digits_value r ds = foldl (\<lambda>a c. a * r + digit_val c) 0 ds"

subsection \<open>\<open>parseInt\<close> with no radix argument\<close>

text \<open>
  Leading white space is dropped, a sign is read, a prefix \<open>0x\<close> or \<open>0X\<close> selects
  radix 16, and the longest run of digits of the radix is the value, rounded to a
  double; with no digit at all the result is \<open>NaN\<close>.
\<close>

definition parseInt :: "string \<Rightarrow> jsnum" where
  "parseInt inputString =
     (let s0 = dropWhile is_space inputString;
          sgn = (if s0 \<noteq> [] \<and> hd s0 = CHR ''-'' then - 1 else 1 :: int);
          s1 = (if s0 \<noteq> [] \<and> (hd s0 = CHR ''+'' \<or> hd s0 = CHR ''-'') then tl s0 else s0);
          hex = (take 2 s1 = ''0x'' \<or> take 2 s1 = ''0X'');
          r = (if hex then 16 else 10);
          s2 = (if hex then drop 2 s1 else s1);
          z = takeWhile (is_digit_in r) s2
      in if z = [] then NaN else round_double (of_int (sgn * int (digits_value r z))))"

subsection \<open>\<open>parseFloat\<close> and \<open>Number\<close>\<close>

text \<open>The exact value of a decimal literal: its digits times a power of ten.\<close>

definition scale10 :: "rat \<Rightarrow> int \<Rightarrow> rat" where
  "scale10 m e = (if 0 \<le> e then m * 10 ^ nat e else m / 10 ^ nat (- e))"

text \<open>An exponent part \<open>e\<close>, optional sign, digits; read only when it is complete.\<close>

definition exponent_part :: "string \<Rightarrow> int \<times> string" where
  "exponent_part s =
     (case s of
        [] \<Rightarrow> (0, s)
      | c # t \<Rightarrow>
          if c = CHR ''e'' \<or> c = CHR ''E'' then
            (let neg = (t \<noteq> [] \<and> hd t = CHR ''-'');
                 t1 = (if t \<noteq> [] \<and> (hd t = CHR ''+'' \<or> hd t = CHR ''-'') then tl t else t);
                 ds = takeWhile (is_digit_in 10) t1
             in if ds = [] then (0, s)
                else ((if neg then - 1 else 1) * int (digits_value 10 ds),
                      dropWhile (is_digit_in 10) t1))
          else (0, s))"

text \<open>
  The longest prefix that is an unsigned decimal literal (\<open>Infinity\<close>, or digits with
  an optional fraction and exponent, or a fraction starting with the point), with the
  rest of the string. The value is the double nearest to the literal.
\<close>

definition unsigned_decimal :: "string \<Rightarrow> (jsnum \<times> string) option" where
  "unsigned_decimal s =
     (if take 8 s = ''Infinity'' then Some (PosInf, drop 8 s)
      else
        let ip = takeWhile (is_digit_in 10) s;
            r1 = dropWhile (is_digit_in 10) s;
            dot = (r1 \<noteq> [] \<and> hd r1 = CHR ''.'');
            fp = (if dot then takeWhile (is_digit_in 10) (tl r1) else []);
            r2 = (if dot then dropWhile (is_digit_in 10) (tl r1) else r1)
        in if ip = [] \<and> fp = [] then None
           else
             (case exponent_part r2 of
                (e, r3) \<Rightarrow>
                  Some (round_double
                          (scale10 (of_nat (digits_value 10 (ip @ fp))) (e - int (length fp))),
                        r3)))"

definition str_decimal :: "string \<Rightarrow> (jsnum \<times> string) option" where
  "str_decimal s =
     (case s of
        [] \<Rightarrow> None
      | c # t \<Rightarrow>
          if c = CHR ''-'' then map_option (\<lambda>(v, r). (js_neg v, r)) (unsigned_decimal t)
          else if c = CHR ''+'' then unsigned_decimal t
          else unsigned_decimal s)"

definition parseFloat :: "string \<Rightarrow> jsnum" where
  "parseFloat s =
     (case str_decimal (dropWhile is_space s) of
        None \<Rightarrow> NaN
      | Some (v, r) \<Rightarrow> v)"

definition trim :: "string \<Rightarrow> string" where
  "trim s = rev (dropWhile is_space (rev (dropWhile is_space s)))"

text \<open>The literals \<open>0x\<close>, \<open>0o\<close> and \<open>0b\<close>, which \<open>Number\<close> reads and \<open>parseFloat\<close> does not.\<close>

definition radix_literal :: "string \<Rightarrow> jsnum option" where
  "radix_literal s =
     (let p = take 2 s;
          ds = drop 2 s;
          r = (if p = ''0x'' \<or> p = ''0X'' then 16
               else if p = ''0o'' \<or> p = ''0O'' then 8
               else if p = ''0b'' \<or> p = ''0B'' then 2
               else 0 :: nat)
      in if r \<noteq> 0 \<and> ds \<noteq> [] \<and> list_all (is_digit_in r) ds
         then Some (round_double (of_nat (digits_value r ds)))
         else None)"

text \<open>
  The conversion of a string to a number: the whole trimmed string has to be a
  literal, and the empty string is 0.
\<close>

definition StringToNumber :: "string \<Rightarrow> jsnum" where
  "StringToNumber str =
     (let s = trim str
      in if s = [] then Num 0
         else
           (case radix_literal s of
              Some v \<Rightarrow> v
            | None \<Rightarrow>
                (case str_decimal s of
                   None \<Rightarrow> NaN
                 | Some (v, r) \<Rightarrow> if r = [] then v else NaN)))"

text \<open>
  A value of a JSON request body, or \<open>undefined\<close> for a key the body does not have.
  A JSON number is given by the value of its literal, which is rounded to a double
  when the body is read. Arrays and objects are left out.
\<close>

datatype jsval = JUndefined | JNull | JBool bool | JNum rat | JStr string

fun Number :: "jsval \<Rightarrow> jsnum" where
  "Number JUndefined = NaN"
| "Number JNull = Num 0"
| "Number (JBool b) = Num (if b then 1 else 0)"
| "Number (JNum a) = round_double a"
| "Number (JStr s) = StringToNumber s"


section \<open>The data model\<close>

text \<open>
  The schema file \<^verbatim>\<open>models/Product.js\<close> is not among the sources. The records below
  hold the fields that the controller reads and writes. A reference (\<open>user\<close>,
  \<open>category\<close>, \<open>createdBy\<close>, the product's own \<open>_id\<close>, here \<open>pid\<close>) is the string of its
  id, taken as well formed. The field \<open>name\<close> of a review is \<open>reviewer\<close> here, since a
  product has a \<open>name\<close> too.
\<close>

record review =
  user :: string
  reviewer :: string
  rating :: jsnum
  comment :: jsval

record product =
  pid :: string
  name :: string
  description :: string
  price :: rat
  discountPrice :: "rat option"
  images :: "string list"
  category :: string
  brand :: string
  stock :: rat
  specifications :: "(string \<times> string) list"
  tags :: "string list"
  featured :: bool
  status :: string
  ratings :: jsnum
  numOfReviews :: nat
  reviews :: "review list"
  createdBy :: string
  createdAt :: nat

text \<open>The identity that the authentication middleware puts in \<open>req.user\<close>.\<close>

record caller =
  user_id :: string
  user_name :: string

text \<open>
  What a handler sends: the four helpers of \<^verbatim>\<open>utils/apiResponse.js\<close> that the product
  controller calls, with the message and, for \<open>sendError\<close>, the status code when the
  call gives one.
\<close>

datatype 'a response =
    SendSuccess string 'a
  | SendCreated string
  | SendNotFound string
  | SendError string "nat option"

subsection \<open>The collection of products\<close>

text \<open>
  The store is the list of the documents of the collection. \<open>findById\<close> returns the
  document with the id, \<open>save\<close> writes a fetched document back in its place.
\<close>

definition findById :: "product list \<Rightarrow> string \<Rightarrow> product option" where
  "findById db i = find (\<lambda>p. pid p = i) db"

fun save :: "product \<Rightarrow> product list \<Rightarrow> product list" where
  "save doc [] = []"
| "save doc (p # ps) = (if pid p = pid doc then doc # ps else p # save doc ps)"

section \<open>The review aggregator: \<open>createProductReview\<close>\<close>

text \<open>The body of the request: \<open>const { rating, comment } = req.body\<close>.\<close>

record review_body =
  body_rating :: jsval
  body_comment :: jsval

text \<open>
  \<open>product.reviews.reduce((acc, item) => item.rating + acc, 0) / product.reviews.length\<close>
\<close>

definition sum_ratings :: "review list \<Rightarrow> jsnum" where
  "sum_ratings rs = foldl (\<lambda>acc item. js_add (rating item) acc) (Num 0) rs"

text \<open>Lines 418 to 423: the review that the call makes.\<close>

definition new_review :: "caller \<Rightarrow> review_body \<Rightarrow> review" where
  "new_review usr body =
     \<lparr>user = user_id usr, reviewer = user_name usr,
      rating = Number (body_rating body), comment = body_comment body\<rparr>"

text \<open>
  Lines 425 to 429: the review is pushed, then \<open>numOfReviews\<close> and \<open>ratings\<close> are
  computed from the list that has it. The length of an array is an integer below
  \<open>2 ^ 32\<close>, a double as it is.
\<close>

definition add_review :: "product \<Rightarrow> caller \<Rightarrow> review_body \<Rightarrow> product" where
  "add_review product usr body =
     (let product1 = product\<lparr>reviews := reviews product @ [new_review usr body]\<rparr>;
          product2 = product1\<lparr>numOfReviews := length (reviews product1)\<rparr>
      in product2\<lparr>ratings :=
           js_div (sum_ratings (reviews product2))
             (Num (of_nat (length (reviews product2))))\<rparr>)"

text \<open>
  The handler, in two parts: \<open>await Product.findById(req.params.id)\<close>, and what
  runs once the document has arrived. \<open>accepts\<close> is the decision of \<open>product.save()\<close>
  on the document it is given: the validation of the schema, which is not among the
  sources, and the store itself. A rejected save throws, and the \<open>catch\<close> block
  answers with the handler's generic error, for which \<open>sendError\<close> gets no status
  code. The result is the response and the collection after the call.
\<close>

definition review_after_fetch ::
  "(product \<Rightarrow> bool) \<Rightarrow> product list \<Rightarrow> product option \<Rightarrow> caller \<Rightarrow> review_body
     \<Rightarrow> unit response \<times> product list" where
  "review_after_fetch accepts db fetched usr body =
     (case fetched of
        None \<Rightarrow> (SendNotFound ''Product not found'', db)
      | Some product \<Rightarrow>
          (case find (\<lambda>r. user r = user_id usr) (reviews product) of
             Some alreadyReviewed \<Rightarrow> (SendError ''Product already reviewed'' (Some 400), db)
           | None \<Rightarrow>
               let product3 = add_review product usr body
               in if accepts product3
                  then (SendCreated ''Review added successfully'', save product3 db)
                  else (SendError ''Server error creating review'' None, db)))"

definition createProductReview ::
  "(product \<Rightarrow> bool) \<Rightarrow> product list \<Rightarrow> string \<Rightarrow> caller \<Rightarrow> review_body
     \<Rightarrow> unit response \<times> product list" where
  "createProductReview accepts db i usr body =
     review_after_fetch accepts db (findById db i) usr body"

text \<open>The arithmetic mean of the specification: 0 for no rating at all.\<close>

definition mean :: "rat list \<Rightarrow> rat" where
  "mean xs = (if xs = [] then 0 else sum_list xs / of_nat (length xs))"

text \<open>
  Modelled from the spec: the defaults of the schema \<^verbatim>\<open>models/Product.js\<close> are missing;
  a product that has no review yet has \<open>reviews = []\<close>, \<open>numOfReviews = 0\<close> and
  \<open>ratings = 0\<close>. The other fields are those of the product of the specification's
  scenarios: price 100, discount price 80, status \<open>active\<close>.
\<close>

definition fresh_product :: "string \<Rightarrow> product" where
  "fresh_product i =
     \<lparr>pid = i, name = ''Lamp'', description = ''A desk lamp'', price = 100,
      discountPrice = Some 80, images = [], category = ''c1'', brand = ''Acme'', stock = 3,
      specifications = [], tags = [], featured = False, status = ''active'',
      ratings = Num 0, numOfReviews = 0, reviews = [], createdBy = ''admin'',
      createdAt = 0\<rparr>"


text \<open>
  Calls that run one after the other: each call fetches after the save of the call
  before it.
\<close>

fun submit_all ::
  "(product \<Rightarrow> bool) \<Rightarrow> product list \<Rightarrow> string \<Rightarrow> (caller \<times> review_body) list
     \<Rightarrow> unit response list \<times> product list" where
  "submit_all accepts db i [] = ([], db)"
| "submit_all accepts db i ((usr, body) # cs) =
     (case createProductReview accepts db i usr body of
        (r, db1) \<Rightarrow>
          (case submit_all accepts db1 i cs of
             (rs, db2) \<Rightarrow> (r # rs, db2)))"

text \<open>
  Two calls in flight at once. The handler gives up control at its two \<open>await\<close>s
  only, so the one schedule that differs from running the calls in turn is the one in
  which both documents are fetched before either call goes on: each call then checks,
  appends and recomputes on its own copy of the document as it was, and saves it.
  The save is the write of the whole document here, so the second save replaces the
  first. (A store that writes only the changed paths would keep both reviews; the
  \<open>numOfReviews\<close> and \<open>ratings\<close> it is left with are those of the second call all the
  same.)
\<close>

definition two_calls_overlapping ::
  "(product \<Rightarrow> bool) \<Rightarrow> product list \<Rightarrow> string \<Rightarrow> caller \<Rightarrow> review_body
     \<Rightarrow> caller \<Rightarrow> review_body \<Rightarrow> unit response \<times> unit response \<times> product list" where
  "two_calls_overlapping accepts db i usr1 body1 usr2 body2 =
     (let fetched1 = findById db i;
          fetched2 = findById db i
      in case review_after_fetch accepts db fetched1 usr1 body1 of
           (r1, db1) \<Rightarrow>
             (case review_after_fetch accepts db1 fetched2 usr2 body2 of
                (r2, db2) \<Rightarrow> (r1, r2, db2)))"

section \<open>The partial update: \<open>updateProduct\<close>\<close>

text \<open>
  The fields of \<open>req.body\<close> that the handler reads; \<open>None\<close> is \<open>undefined\<close>, a key
  the body does not have. A supplied value has the type of its field.
\<close>

record update_body =
  new_name :: "string option"
  new_description :: "string option"
  new_price :: "rat option"
  new_discountPrice :: "rat option"
  new_images :: "string list option"
  new_category :: "string option"
  new_brand :: "string option"
  new_stock :: "rat option"
  new_specifications :: "(string \<times> string) list option"
  new_tags :: "string list option"
  new_featured :: "bool option"
  new_status :: "string option"

text \<open>
  \<open>a || b\<close>: \<open>b\<close> when \<open>a\<close> is falsy. \<open>undefined\<close>, the empty string and the number 0
  are falsy; every array and every object is truthy.
\<close>

definition or_string :: "string option \<Rightarrow> string \<Rightarrow> string" where
  "or_string a b = (case a of None \<Rightarrow> b | Some s \<Rightarrow> if s = [] then b else s)"

definition or_number :: "rat option \<Rightarrow> rat \<Rightarrow> rat" where
  "or_number a b = (case a of None \<Rightarrow> b | Some n \<Rightarrow> if n = 0 then b else n)"

definition or_number_opt :: "rat option \<Rightarrow> rat option \<Rightarrow> rat option" where
  "or_number_opt a b = (case a of None \<Rightarrow> b | Some n \<Rightarrow> if n = 0 then b else Some n)"

definition or_object :: "'a option \<Rightarrow> 'a \<Rightarrow> 'a" where
  "or_object a b = (case a of None \<Rightarrow> b | Some x \<Rightarrow> x)"

text \<open>\<open>a !== undefined ? a : b\<close>\<close>

definition if_defined :: "'a option \<Rightarrow> 'a \<Rightarrow> 'a" where
  "if_defined a b = (case a of None \<Rightarrow> b | Some x \<Rightarrow> x)"

text \<open>A body with none of the keys.\<close>

definition no_fields :: update_body where
  "no_fields =
     \<lparr>new_name = None, new_description = None, new_price = None, new_discountPrice = None,
      new_images = None, new_category = None, new_brand = None, new_stock = None,
      new_specifications = None, new_tags = None, new_featured = None, new_status = None\<rparr>"

text \<open>Lines 356 to 367: the twelve assignments.\<close>

definition apply_update :: "update_body \<Rightarrow> product \<Rightarrow> product" where
  "apply_update body product =
     product\<lparr>name := or_string (new_name body) (name product),
             description := or_string (new_description body) (description product),
             price := or_number (new_price body) (price product),
             discountPrice := or_number_opt (new_discountPrice body) (discountPrice product),
             images := or_object (new_images body) (images product),
             category := or_string (new_category body) (category product),
             brand := or_string (new_brand body) (brand product),
             stock := if_defined (new_stock body) (stock product),
             specifications := or_object (new_specifications body) (specifications product),
             tags := or_object (new_tags body) (tags product),
             featured := if_defined (new_featured body) (featured product),
             status := or_string (new_status body) (status product)\<rparr>"

definition updateProduct ::
  "(product \<Rightarrow> bool) \<Rightarrow> product list \<Rightarrow> string \<Rightarrow> update_body
     \<Rightarrow> product response \<times> product list" where
  "updateProduct accepts db i body =
     (case findById db i of
        Some product \<Rightarrow>
          let updated = apply_update body product
          in if accepts updated
             then (SendSuccess ''Product updated successfully'' updated, save updated db)
             else (SendError ''Server error updating product'' None, db)
      | None \<Rightarrow> (SendNotFound ''Product not found'', db))"


section \<open>The query planner: \<open>getProducts\<close>\<close>

text \<open>
  \<open>req.query\<close>: each of the parameters is a string or is absent (\<open>undefined\<close>).
  A parameter is truthy when it is present and not the empty string; \<open>present\<close> is
  its value then.
\<close>

type_synonym params = "string \<Rightarrow> string option"

definition truthy :: "string option \<Rightarrow> bool" where
  "truthy v = (case v of None \<Rightarrow> False | Some s \<Rightarrow> s \<noteq> [])"

definition present :: "string option \<Rightarrow> string option" where
  "present v = (case v of None \<Rightarrow> None | Some s \<Rightarrow> if s = [] then None else Some s)"

text \<open>The string that \<open>parseInt\<close> makes of its argument.\<close>

definition ToString :: "string option \<Rightarrow> string" where
  "ToString v = (case v of None \<Rightarrow> ''undefined'' | Some s \<Rightarrow> s)"

text \<open>\<open>parseInt(v) || d\<close>: \<open>NaN\<close> and 0 are falsy.\<close>

definition or_default :: "jsnum \<Rightarrow> jsnum \<Rightarrow> jsnum" where
  "or_default x d = (if x = NaN \<or> x = Num 0 then d else x)"

subsection \<open>\<open>new RegExp(req.query.brand, 'i')\<close>\<close>

text \<open>
  The pattern language is modelled on the patterns made of plain characters and the
  point. A pattern with an opening parenthesis and no other syntax character but the
  point has a group that is never closed, and the constructor throws a SyntaxError.
  Every other pattern is left to \<open>engine\<close>, the regular-expression engine as a
  parameter: \<open>None\<close> when the constructor throws, otherwise the test of a string.
\<close>

datatype rx_atom = Lit char | AnyChar

text \<open>
  The syntax characters of a pattern, by their codes: the dollar sign, the parentheses,
  the star, the plus sign, the point, the question mark, the brackets, the backslash,
  the circumflex, the braces and the bar.
\<close>

definition syntax_char :: "char \<Rightarrow> bool" where
  "syntax_char c =
     ((of_char c :: nat) \<in> {36, 40, 41, 42, 43, 46, 63, 91, 92, 93, 94, 123, 124, 125})"

definition rx_atom_of :: "char \<Rightarrow> rx_atom" where
  "rx_atom_of c = (if c = CHR ''.'' then AnyChar else Lit c)"

text \<open>
  The flag \<open>i\<close>: characters are compared by their upper case. Below 256 the letters
  with an upper case below 256 are \<open>a\<close> to \<open>z\<close> and the codes 224 to 254 without the
  division sign 247; the sharp s (223), the micro sign (181) and the y with diaeresis
  (255) match no other character below 256.
\<close>

definition canonicalize :: "char \<Rightarrow> char" where
  "canonicalize c =
     (let n = (of_char c :: nat)
      in if (97 \<le> n \<and> n \<le> 122) \<or> (224 \<le> n \<and> n \<le> 254 \<and> n \<noteq> 247)
         then char_of (n - 32) else c)"

fun atom_matches :: "rx_atom \<Rightarrow> char \<Rightarrow> bool" where
  "atom_matches (Lit a) c = (canonicalize a = canonicalize c)"
| "atom_matches AnyChar c = ((of_char c :: nat) \<noteq> 10 \<and> (of_char c :: nat) \<noteq> 13)"

fun rx_match_here :: "rx_atom list \<Rightarrow> string \<Rightarrow> bool" where
  "rx_match_here [] s = True"
| "rx_match_here (a # as) [] = False"
| "rx_match_here (a # as) (c # s) = (atom_matches a c \<and> rx_match_here as s)"

text \<open>A regular expression is not anchored: it matches at any offset.\<close>

fun rx_search :: "rx_atom list \<Rightarrow> string \<Rightarrow> bool" where
  "rx_search as [] = rx_match_here as []"
| "rx_search as (c # s) = (rx_match_here as (c # s) \<or> rx_search as s)"

text \<open>A character of the modelled patterns: the point, or no syntax character.\<close>

definition pattern_char :: "char \<Rightarrow> bool" where
  "pattern_char c = (c = CHR ''.'' \<or> \<not> syntax_char c)"

definition new_RegExp ::
  "(string \<Rightarrow> (string \<Rightarrow> bool) option) \<Rightarrow> string \<Rightarrow> (string \<Rightarrow> bool) option" where
  "new_RegExp engine pattern =
     (if list_all pattern_char pattern
      then Some (rx_search (map rx_atom_of pattern))
      else if list_all (\<lambda>c. c = CHR ''('' \<or> pattern_char c) pattern
      then None
      else engine pattern)"

subsection \<open>The query object and the plan\<close>

text \<open>
  \<open>query\<close>, with a field for each key the handler may set: \<open>None\<close> for a key that is
  not set. \<open>query.price\<close> is the pair of \<open>$gte\<close> and \<open>$lte\<close>.
\<close>

record query =
  q_category :: "string option"
  q_brand :: "(string \<Rightarrow> bool) option"
  q_featured :: "bool option"
  q_status :: string
  q_price_gte :: "jsnum option"
  q_price_lte :: "jsnum option"
  q_text_search :: "string option"

record plan =
  page :: jsnum
  limit :: jsnum
  skip :: jsnum
  query :: query
  sortOptions :: "string \<times> int"

text \<open>Lines 198 to 200: the key \<open>brand\<close> of the query. \<open>None\<close>: \<open>new RegExp\<close> has thrown.\<close>

definition brand_regexp ::
  "(string \<Rightarrow> (string \<Rightarrow> bool) option) \<Rightarrow> string option \<Rightarrow> (string \<Rightarrow> bool) option option" where
  "brand_regexp engine v =
     (case present v of
        None \<Rightarrow> Some None
      | Some b \<Rightarrow> map_option Some (new_RegExp engine b))"

text \<open>Lines 213 to 217: the two operands of the key \<open>price\<close>.\<close>

definition price_gte :: "string option \<Rightarrow> string option \<Rightarrow> jsnum option" where
  "price_gte minPrice maxPrice =
     (if truthy minPrice \<or> truthy maxPrice
      then (case present minPrice of None \<Rightarrow> None | Some s \<Rightarrow> Some (parseFloat s))
      else None)"

definition price_lte :: "string option \<Rightarrow> string option \<Rightarrow> jsnum option" where
  "price_lte minPrice maxPrice =
     (if truthy minPrice \<or> truthy maxPrice
      then (case present maxPrice of None \<Rightarrow> None | Some s \<Rightarrow> Some (parseFloat s))
      else None)"

text \<open>Lines 225 to 234: the one sort key and its order.\<close>

definition sort_of :: "string option \<Rightarrow> string \<times> int" where
  "sort_of v =
     (case present v of
        Some s \<Rightarrow> if take 1 s = ''-'' then (drop 1 s, - 1) else (s, 1)
      | None \<Rightarrow> (''createdAt'', - 1))"

text \<open>
  Lines 186 to 234 of the handler: everything up to the execution of the query.
  \<open>None\<close>: \<open>new RegExp\<close> has thrown.
\<close>

definition build_plan ::
  "(string \<Rightarrow> (string \<Rightarrow> bool) option) \<Rightarrow> params \<Rightarrow> plan option" where
  "build_plan engine q =
     (let pg = or_default (parseInt (ToString (q ''page''))) (Num 1);
          lmt = or_default (parseInt (ToString (q ''limit''))) (Num 12);
          sk = js_mul (js_sub pg (Num 1)) lmt
      in case brand_regexp engine (q ''brand'') of
           None \<Rightarrow> None
         | Some rx \<Rightarrow>
             Some \<lparr>page = pg, limit = lmt, skip = sk,
                   query = \<lparr>q_category = present (q ''category''),
                            q_brand = rx,
                            q_featured = (case present (q ''featured'') of
                                            None \<Rightarrow> None
                                          | Some f \<Rightarrow> Some (f = ''true'')),
                            q_status = (case present (q ''status'') of
                                          Some s \<Rightarrow> s
                                        | None \<Rightarrow> ''active''),
                            q_price_gte = price_gte (q ''minPrice'') (q ''maxPrice''),
                            q_price_lte = price_lte (q ''minPrice'') (q ''maxPrice''),
                            q_text_search = present (q ''search'')\<rparr>,
                   sortOptions = sort_of (q ''sort'')\<rparr>)"

subsection \<open>The store's side of a query\<close>

text \<open>
  The comparisons of \<open>$gte\<close> and \<open>$lte\<close> between an operand and a stored price.
  Before a query reaches the store, the operands on a Number path are cast, and the
  cast of \<open>NaN\<close> fails with a CastError: \<open>castable\<close>.
\<close>

fun gte_operand :: "rat \<Rightarrow> jsnum \<Rightarrow> bool" where
  "gte_operand x NaN = False"
| "gte_operand x (Num a) = (a \<le> x)"
| "gte_operand x PosInf = False"
| "gte_operand x NegInf = True"

fun lte_operand :: "rat \<Rightarrow> jsnum \<Rightarrow> bool" where
  "lte_operand x NaN = False"
| "lte_operand x (Num a) = (x \<le> a)"
| "lte_operand x PosInf = True"
| "lte_operand x NegInf = False"

definition castable :: "query \<Rightarrow> bool" where
  "castable qu = (q_price_gte qu \<noteq> Some NaN \<and> q_price_lte qu \<noteq> Some NaN)"

text \<open>
  The conjunction of the predicates of the query. \<open>textSearch\<close> is the store's text
  search (\<open>$text\<close>), a parameter.
\<close>

definition matches :: "(string \<Rightarrow> product \<Rightarrow> bool) \<Rightarrow> query \<Rightarrow> product \<Rightarrow> bool" where
  "matches textSearch qu p =
     ((case q_category qu of None \<Rightarrow> True | Some c \<Rightarrow> category p = c) \<and>
      (case q_brand qu of None \<Rightarrow> True | Some rx \<Rightarrow> rx (brand p)) \<and>
      (case q_featured qu of None \<Rightarrow> True | Some b \<Rightarrow> featured p = b) \<and>
      status p = q_status qu \<and>
      (case q_price_gte qu of None \<Rightarrow> True | Some lo \<Rightarrow> gte_operand (price p) lo) \<and>
      (case q_price_lte qu of None \<Rightarrow> True | Some hi \<Rightarrow> lte_operand (price p) hi) \<and>
      (case q_text_search qu of None \<Rightarrow> True | Some t \<Rightarrow> textSearch t p))"

text \<open>
  \<open>.skip(skip).limit(limit)\<close> on the sorted result. The store takes a count that is
  a 64-bit integer and refuses any other number (\<open>None\<close>). It refuses a negative skip;
  a negative limit stands for its absolute value, and 0 for no limit.
\<close>

definition as_int64 :: "jsnum \<Rightarrow> int option" where
  "as_int64 x =
     (case x of
        Num a \<Rightarrow> if a = of_int \<lfloor>a\<rfloor> \<and> \<bar>a\<bar> < 2 ^ 63 then Some \<lfloor>a\<rfloor> else None
      | NaN \<Rightarrow> None
      | PosInf \<Rightarrow> None
      | NegInf \<Rightarrow> None)"

definition skip_limit :: "jsnum \<Rightarrow> jsnum \<Rightarrow> 'a list \<Rightarrow> 'a list option" where
  "skip_limit sk lmt xs =
     (case as_int64 sk of
        None \<Rightarrow> None
      | Some s \<Rightarrow>
          (case as_int64 lmt of
             None \<Rightarrow> None
           | Some l \<Rightarrow>
               if s < 0 then None
               else if l = 0 then Some (drop (nat s) xs)
               else Some (take (nat \<bar>l\<bar>) (drop (nat s) xs))))"

record pagination =
  current :: jsnum
  pages :: jsnum
  total :: jsnum
  hasNext :: bool
  hasPrev :: bool

text \<open>
  The handler. \<open>sortDocs\<close> is the store's sort by the one key of \<open>sortOptions\<close>, a
  parameter like \<open>engine\<close> and \<open>textSearch\<close>. Whatever throws ends in the \<open>catch\<close>
  block. The two \<open>populate\<close> calls, which replace the references of a returned
  product by the names they stand for, are not modelled.
\<close>

definition getProducts ::
  "(string \<Rightarrow> (string \<Rightarrow> bool) option) \<Rightarrow> (string \<Rightarrow> product \<Rightarrow> bool)
     \<Rightarrow> (string \<times> int \<Rightarrow> product list \<Rightarrow> product list) \<Rightarrow> product list \<Rightarrow> params
     \<Rightarrow> (product list \<times> pagination) response" where
  "getProducts engine textSearch sortDocs db q =
     (case build_plan engine q of
        None \<Rightarrow> SendError ''Server error retrieving products'' None
      | Some pl \<Rightarrow>
          if \<not> castable (query pl) then SendError ''Server error retrieving products'' None
          else
            (case skip_limit (skip pl) (limit pl)
                    (sortDocs (sortOptions pl) (filter (matches textSearch (query pl)) db)) of
               None \<Rightarrow> SendError ''Server error retrieving products'' None
             | Some products \<Rightarrow>
                 let tot = round_double (of_nat (length (filter (matches textSearch (query pl)) db)));
                     totalPages = js_ceil (js_div tot (limit pl))
                 in SendSuccess ''Products retrieved successfully''
                      (products,
                       \<lparr>current = page pl, pages = totalPages, total = tot,
                        hasNext = js_lt (page pl) totalPages,
                        hasPrev = js_lt (Num 1) (page pl)\<rparr>)))"



text \<open>The specification's reading of the brand filter: a substring, letters in any case.\<close>

definition ci_substring :: "string \<Rightarrow> string \<Rightarrow> bool" where
  "ci_substring s t = sublist (map canonicalize s) (map canonicalize t)"

section \<open>Properties of the rounding\<close>

lemma round_half_even_of_int: "round_half_even (of_int n) = n"
  by (simp add: round_half_even_def)

lemma pow2_neg: "0 \<le> j \<Longrightarrow> pow2 (- j) = 1 / 2 ^ nat j"
  by (auto simp: pow2_def)

lemma floor_log2_of_int: "0 < n \<Longrightarrow> floor_log2 (of_int n) = bitlen n - 1"
  by (simp add: floor_log2_def)

text \<open>An integer below \<open>2 ^ 53\<close> in absolute value is a double.\<close>

lemma round_double_of_int:
  assumes "\<bar>k\<bar> < 2 ^ 53"
  shows "round_double (of_int k) = Num (of_int k)"
proof (cases "k = 0")
  case True
  then show ?thesis by (simp add: round_double_def)
next
  case False
  define n where "n = \<bar>k\<bar>"
  have n: "0 < n" "n < 2 ^ 53" using False assms by (simp_all add: n_def)
  define d where "d = bitlen n - 1"
  from bitlen_bounds [OF n(1)] have lo: "2 ^ nat d \<le> n" by (simp add: d_def)
  have d0: "0 \<le> d" using n(1) bitlen_eq_zero_iff [of n] bitlen_nonneg [of n]
    by (simp add: d_def)
  have "(2::int) ^ nat d < 2 ^ 53" using lo n(2) by linarith
  then have "nat d < 53"
    using power_strict_increasing_iff [of "2::int" "nat d" 53] by simp
  then have d52: "d \<le> 52" by linarith
  define j where "j = nat (52 - d)"
  have a: "\<bar>rat_of_int k\<bar> = of_int n" by (simp add: n_def)
  have fl: "floor_log2 (of_int n) = d" using floor_log2_of_int [OF n(1)] by (simp add: d_def)
  have mx: "max d (- 1022) = d" using d0 by simp
  have ulp: "pow2 (d - 52) = 1 / 2 ^ j"
    using pow2_neg [of "52 - d"] d52 by (simp add: j_def)
  have quo: "rat_of_int n / (1 / 2 ^ j) = of_int (n * 2 ^ j)" by simp
  have y: "rat_of_int (round_half_even (rat_of_int n / (1 / 2 ^ j))) * (1 / 2 ^ j) = of_int n"
    unfolding quo round_half_even_of_int by simp
  have "rat_of_int n < 2 ^ 53"
    using n(2) by (metis of_int_less_iff of_int_numeral of_int_power)
  also have "\<dots> \<le> (2::rat) ^ 1024" by (rule power_increasing) simp_all
  finally have small: "\<not> pow2 1024 \<le> rat_of_int n" by (simp add: pow2_def)
  have sg: "(if rat_of_int k < 0 then - rat_of_int n else rat_of_int n) = of_int k"
    by (simp add: n_def)
  have nz: "rat_of_int k \<noteq> 0" using False by simp
  show ?thesis
    unfolding round_double_def Let_def a fl mx ulp y
    using nz small sg by simp
qed

lemma round_double_numeral [simp]:
  "(numeral w :: int) < 2 ^ 53 \<Longrightarrow> round_double (numeral w) = Num (numeral w)"
  using round_double_of_int [of "numeral w"] by simp

lemma round_double_neg_numeral [simp]:
  "(numeral w :: int) < 2 ^ 53 \<Longrightarrow> round_double (- numeral w) = Num (- numeral w)"
  using round_double_of_int [of "- numeral w"] by simp

lemma round_double_0 [simp]: "round_double 0 = Num 0"
  by (simp add: round_double_def)

lemma round_double_1 [simp]: "round_double 1 = Num 1"
  using round_double_of_int [of 1] by simp

lemma round_double_of_nat: "n < 2 ^ 53 \<Longrightarrow> round_double (of_nat n) = Num (of_nat n)"
  using round_double_of_int [of "int n"] by simp

lemma js_add_int:
  "\<bar>a + b\<bar> < 2 ^ 53 \<Longrightarrow> js_add (Num (of_int a)) (Num (of_int b)) = Num (of_int (a + b))"
  using round_double_of_int [of "a + b"] by simp




lemma bitlen_11: "bitlen 11 = 4"
  by (subst compute_bitlen, simp)+


lemma round_double_1_12: "round_double (1 / 12) = Num (6004799503160661 / 72057594037927936)"
proof -
  have e: "floor_log2 (1 / 12) = - 4"
    by (simp add: floor_log2_def bitlen_11)
  have f: "\<lfloor>(18014398509481984::rat) / 3\<rfloor> = 6004799503160661"
    by (simp add: floor_unique)
  have r: "round_half_even (18014398509481984 / 3) = 6004799503160661"
    by (simp add: round_half_even_def Let_def f)
  show ?thesis
    by (simp add: round_double_def e pow2_def r)
qed

lemma pages_1_12: "js_ceil (js_div (Num 1) (Num 12)) = Num 1"
  by (simp add: round_double_1_12 ceiling_unique)

text \<open>Integers from \<open>2 ^ 53\<close> on are rounded: a tie goes to the even significand.\<close>

lemma bitlen_between:
  assumes "2 ^ n \<le> k" and "k < 2 ^ (n + 1)"
  shows "bitlen k = int n + 1"
proof -
  have "0 < k" using assms(1) zero_less_power [of "2::int" n] by linarith
  from bitlen_bounds [OF this] have b: "2 ^ nat (bitlen k - 1) \<le> k" "k < 2 ^ nat (bitlen k)"
    by simp_all
  have "(2::int) ^ n < 2 ^ nat (bitlen k)" using assms(1) b(2) by linarith
  then have 1: "n < nat (bitlen k)" using power_strict_increasing_iff [of "2::int" n "nat (bitlen k)"] by simp
  have "(2::int) ^ nat (bitlen k - 1) < 2 ^ (n + 1)" using assms(2) b(1) by linarith
  then have 2: "nat (bitlen k - 1) < n + 1"
    using power_strict_increasing_iff [of "2::int" "nat (bitlen k - 1)" "n + 1"] by simp
  from 1 2 show ?thesis by linarith
qed

lemma round_double_tie: "round_double 9007199254740993 = Num 9007199254740992"
proof -
  have "bitlen 9007199254740993 = int 53 + 1"
    by (rule bitlen_between) simp_all
  then have e: "floor_log2 9007199254740993 = 53"
    using floor_log2_of_int [of 9007199254740993] by simp
  have f: "\<lfloor>(9007199254740993::rat) / 2\<rfloor> = 4503599627370496"
    by (simp add: floor_unique)
  have r: "round_half_even (9007199254740993 / 2) = 4503599627370496"
    by (simp add: round_half_even_def Let_def f)
  show ?thesis
    by (simp add: round_double_def e pow2_def r)
qed

lemma round_double_skip: "round_double 108086391056891892 = Num 108086391056891888"
proof -
  have "bitlen 108086391056891892 = int 56 + 1"
    by (rule bitlen_between) simp_all
  then have e: "floor_log2 108086391056891892 = 56"
    using floor_log2_of_int [of 108086391056891892] by simp
  have f: "\<lfloor>(27021597764222973::rat) / 4\<rfloor> = 6755399441055743"
    by (simp add: floor_unique)
  have r: "round_half_even (27021597764222973 / 4) = 6755399441055743"
    by (simp add: round_half_even_def Let_def f)
  show ?thesis
    by (simp add: round_double_def e pow2_def r)
qed

lemma round_half_even_ge_floor: "\<lfloor>x\<rfloor> \<le> round_half_even x"
  by (simp add: round_half_even_def Let_def)

text \<open>A value of \<open>2 ^ 1024\<close> or more is rounded to the infinity.\<close>

lemma round_double_overflow:
  assumes "2 ^ 1024 \<le> x"
  shows "round_double x = PosInf"
proof -
  have x1: "1 \<le> x" using assms by (rule order_trans [rotated]) simp
  then have x0: "0 < x" by simp
  define n where "n = \<lfloor>x\<rfloor>"
  have "(2::int) ^ 1024 \<le> n"
    unfolding n_def using assms by (simp add: le_floor_iff)
  moreover have n0: "0 < n" using x1 by (simp add: n_def)
  from bitlen_bounds [OF n0] have b: "2 ^ nat (bitlen n - 1) \<le> n" "n < 2 ^ nat (bitlen n)"
    by simp_all
  ultimately have "(2::int) ^ 1024 < 2 ^ nat (bitlen n)" by linarith
  then have "1024 < nat (bitlen n)"
    using power_strict_increasing_iff [of "2::int" 1024 "nat (bitlen n)"] by simp
  define e where "e = bitlen n - 1"
  have e: "1024 \<le> e" using \<open>1024 < nat (bitlen n)\<close> by (simp add: e_def)
  have fl: "floor_log2 x = e" using x1 by (simp add: floor_log2_def n_def e_def)
  have mx: "max e (- 1022) = e" using e by simp
  have "rat_of_int (2 ^ nat e) \<le> of_int n" using b(1) unfolding e_def by (simp only: of_int_le_iff)
  also have "\<dots> \<le> x" by (simp add: n_def)
  finally have lo: "2 ^ nat e \<le> x" by simp
  define j where "j = nat (e - 52)"
  have ne: "nat e = j + 52" using e by (simp add: j_def)
  have ulp: "pow2 (e - 52) = 2 ^ j" using e by (simp add: pow2_def j_def)
  have "(2::rat) ^ 52 = 2 ^ nat e / 2 ^ j" by (simp add: ne power_add)
  also have "\<dots> \<le> x / 2 ^ j" using lo by (simp add: divide_right_mono)
  finally have "(2::int) ^ 52 \<le> \<lfloor>x / 2 ^ j\<rfloor>" by (simp add: le_floor_iff)
  then have r: "2 ^ 52 \<le> round_half_even (x / 2 ^ j)"
    using round_half_even_ge_floor [of "x / 2 ^ j"] by linarith
  have "(2::rat) ^ 1024 \<le> 2 ^ nat e" using e by (intro power_increasing) simp_all
  also have "\<dots> = 2 ^ 52 * 2 ^ j" by (simp add: ne power_add)
  also have "\<dots> \<le> of_int (round_half_even (x / 2 ^ j)) * 2 ^ j"
  proof (rule mult_right_mono)
    have "rat_of_int (2 ^ 52) \<le> of_int (round_half_even (x / 2 ^ j))"
      using r by (simp only: of_int_le_iff)
    then show "(2::rat) ^ 52 \<le> of_int (round_half_even (x / 2 ^ j))" by simp
  qed simp
  finally have big: "pow2 1024 \<le> of_int (round_half_even (x / 2 ^ j)) * 2 ^ j"
    by (simp add: pow2_def)
  have ax: "\<bar>x\<bar> = x" using x0 by simp
  show ?thesis
    unfolding round_double_def Let_def ax fl mx ulp
    using x0 big by simp
qed

text \<open>The sum of the largest double and itself.\<close>

lemma js_add_overflow:
  "js_add (Num ((2 ^ 53 - 1) * 2 ^ 971)) (Num ((2 ^ 53 - 1) * 2 ^ 971)) = PosInf"
proof -
  have "(2::rat) ^ 1024 \<le> (2 ^ 53 - 1) * 2 ^ 971 + (2 ^ 53 - 1) * 2 ^ 971" by simp
  then show ?thesis by (simp only: js_add.simps round_double_overflow)
qed

section \<open>Properties of the review aggregator\<close>

lemma of_int_sum_list: "sum_list (map rat_of_int ks) = of_int (sum_list ks)"
  by (induction ks) simp_all

lemma sum_list_nonneg_int: "\<forall>k \<in> set ks. (0::int) \<le> k \<Longrightarrow> 0 \<le> sum_list ks"
  by (induction ks) simp_all

text \<open>The sum of ratings that are integers from 0 up is exact as long as it is below \<open>2 ^ 53\<close>.\<close>

lemma sum_ratings_from:
  "map rating rs = map (\<lambda>k. Num (of_int k)) ks \<Longrightarrow> \<forall>k \<in> set ks. 0 \<le> k \<Longrightarrow> 0 \<le> a \<Longrightarrow>
   a + sum_list ks < 2 ^ 53 \<Longrightarrow>
   foldl (\<lambda>acc item. js_add (rating item) acc) (Num (of_int a)) rs
     = Num (of_int (a + sum_list ks))"
proof (induction rs arbitrary: a ks)
  case Nil
  then show ?case by simp
next
  case (Cons r rs)
  from Cons.prems(1) obtain k ks' where ks: "ks = k # ks'"
    and r: "rating r = Num (of_int k)"
    and rs: "map rating rs = map (\<lambda>k. Num (of_int k)) ks'"
    by (cases ks) auto
  have k0: "0 \<le> k" and ks0: "\<forall>k \<in> set ks'. 0 \<le> k" using Cons.prems(2) ks by simp_all
  have s0: "0 \<le> sum_list ks'" using sum_list_nonneg_int [OF ks0] .
  have b: "k + a + sum_list ks' < 2 ^ 53" using Cons.prems(4) ks by simp
  have "\<bar>k + a\<bar> < 2 ^ 53" using k0 Cons.prems(3) s0 b by linarith
  then have step: "js_add (rating r) (Num (of_int a)) = Num (of_int (k + a))"
    unfolding r by (rule js_add_int)
  have "0 \<le> k + a" using k0 Cons.prems(3) by simp
  from Cons.IH [OF rs ks0 this b] show ?case
    by (simp add: step ks add.assoc add.left_commute)
qed

lemma sum_ratings_Num:
  "map rating rs = map (\<lambda>k. Num (of_int k)) ks \<Longrightarrow> \<forall>k \<in> set ks. 0 \<le> k \<Longrightarrow>
   sum_list ks < 2 ^ 53 \<Longrightarrow> sum_ratings rs = Num (of_int (sum_list ks))"
  using sum_ratings_from [of rs ks 0] by (simp add: sum_ratings_def)

lemma findById_save:
  "findById db i = Some p \<Longrightarrow> pid doc = i \<Longrightarrow> findById (save doc db) i = Some doc"
  by (induction db) (auto simp: findById_def)

lemma findById_pid: "findById db i = Some p \<Longrightarrow> pid p = i"
  by (auto simp: findById_def find_Some_iff)

lemma reviews_add_review:
  "reviews (add_review p usr body) =
     reviews p @ [new_review usr body]"
  by (simp add: add_review_def Let_def)

lemma numOfReviews_add_review:
  "numOfReviews (add_review p usr body) = length (reviews (add_review p usr body))"
  by (simp add: add_review_def Let_def)

lemma pid_add_review: "pid (add_review p usr body) = pid p"
  by (simp add: add_review_def Let_def)

lemma ratings_add_review:
  assumes "map rating (reviews (add_review p usr body)) = map (\<lambda>k. Num (of_int k)) ks"
    and "\<forall>k \<in> set ks. 0 \<le> k" and "sum_list ks < 2 ^ 53"
  shows "ratings (add_review p usr body) = round_double (mean (map of_int ks))"
proof -
  have "length (map rating (reviews (add_review p usr body)))
          = length (map (\<lambda>k. Num (rat_of_int k)) ks)"
    using assms(1) by simp
  then have len: "length ks = Suc (length (reviews p))"
    by (simp add: reviews_add_review)
  then have ne: "ks \<noteq> []" by auto
  from assms have "sum_ratings (reviews (add_review p usr body)) = Num (of_int (sum_list ks))"
    by (rule sum_ratings_Num)
  then have s: "sum_ratings (reviews p @ [new_review usr body]) = Num (of_int (sum_list ks))"
    by (simp add: reviews_add_review)
  have m: "mean (map rat_of_int ks) = of_int (sum_list ks) / of_nat (Suc (length (reviews p)))"
    using ne len by (simp add: mean_def of_int_sum_list)
  have "ratings (add_review p usr body)
          = js_div (Num (of_int (sum_list ks))) (Num (of_nat (Suc (length (reviews p)))))"
    by (simp add: add_review_def Let_def s)
  also have "\<dots> = round_double (of_int (sum_list ks) / of_nat (Suc (length (reviews p))))"
    by (simp del: of_nat_Suc)
  finally show ?thesis by (simp only: m)
qed


lemma review_new:
  assumes "findById db i = Some p" and "find (\<lambda>r. user r = user_id usr) (reviews p) = None"
  shows "createProductReview accepts db i usr body =
           (if accepts (add_review p usr body)
            then (SendCreated ''Review added successfully'', save (add_review p usr body) db)
            else (SendError ''Server error creating review'' None, db))"
  using assms by (simp add: createProductReview_def review_after_fetch_def Let_def)



lemmas review_eval = createProductReview_def review_after_fetch_def add_review_def new_review_def
  findById_def fresh_product_def sum_ratings_def mean_def Let_def



text \<open>
  C2. When the fetched product already has a review of the caller, the call answers
  with status 400 and the message of the duplicate, which is not the answer of the
  \<open>catch\<close> block, and the collection is the one it was: nothing is saved.
\<close>

theorem duplicate_review_rejected:
  assumes "findById db i = Some p" and "\<exists>r \<in> set (reviews p). user r = user_id usr"
  shows "createProductReview accepts db i usr body =
           (SendError ''Product already reviewed'' (Some 400), db)
         \<and> fst (createProductReview accepts db i usr body) \<noteq>
             SendError ''Server error creating review'' None
         \<and> findById (snd (createProductReview accepts db i usr body)) i = Some p"
proof -
  from assms(2) obtain r where "find (\<lambda>r. user r = user_id usr) (reviews p) = Some r"
    by (cases "find (\<lambda>r. user r = user_id usr) (reviews p)") (auto simp: find_None_iff)
  then have "createProductReview accepts db i usr body =
           (SendError ''Product already reviewed'' (Some 400), db)"
    using assms(1) by (simp add: createProductReview_def review_after_fetch_def)
  then show ?thesis using assms(1) by simp
qed

theorem duplicate_review_rejected_witness:
  "findById [add_review (fresh_product ''p1'') \<lparr>user_id = ''u1'', user_name = ''Ann''\<rparr>
               \<lparr>body_rating = JNum 5, body_comment = JStr ''a''\<rparr>] ''p1''
     = Some (add_review (fresh_product ''p1'') \<lparr>user_id = ''u1'', user_name = ''Ann''\<rparr>
               \<lparr>body_rating = JNum 5, body_comment = JStr ''a''\<rparr>)
   \<and> (\<exists>r \<in> set (reviews (add_review (fresh_product ''p1'') \<lparr>user_id = ''u1'', user_name = ''Ann''\<rparr>
               \<lparr>body_rating = JNum 5, body_comment = JStr ''a''\<rparr>)). user r = ''u1'')
   \<and> createProductReview (\<lambda>d. True)
        [add_review (fresh_product ''p1'') \<lparr>user_id = ''u1'', user_name = ''Ann''\<rparr>
               \<lparr>body_rating = JNum 5, body_comment = JStr ''a''\<rparr>] ''p1''
        \<lparr>user_id = ''u1'', user_name = ''Ann''\<rparr> \<lparr>body_rating = JNum 1, body_comment = JStr ''z''\<rparr>
     = (SendError ''Product already reviewed'' (Some 400),
        [add_review (fresh_product ''p1'') \<lparr>user_id = ''u1'', user_name = ''Ann''\<rparr>
               \<lparr>body_rating = JNum 5, body_comment = JStr ''a''\<rparr>])"
proof -
  have f: "findById [add_review (fresh_product ''p1'') \<lparr>user_id = ''u1'', user_name = ''Ann''\<rparr>
               \<lparr>body_rating = JNum 5, body_comment = JStr ''a''\<rparr>] ''p1''
     = Some (add_review (fresh_product ''p1'') \<lparr>user_id = ''u1'', user_name = ''Ann''\<rparr>
               \<lparr>body_rating = JNum 5, body_comment = JStr ''a''\<rparr>)"
    by (simp add: findById_def add_review_def new_review_def fresh_product_def Let_def)
  have r: "\<exists>r \<in> set (reviews (add_review (fresh_product ''p1'') \<lparr>user_id = ''u1'', user_name = ''Ann''\<rparr>
               \<lparr>body_rating = JNum 5, body_comment = JStr ''a''\<rparr>)).
             user r = user_id \<lparr>user_id = ''u1'', user_name = ''Ann''\<rparr>"
    by (simp add: reviews_add_review new_review_def)
  from duplicate_review_rejected [OF f r] f r show ?thesis by simp
qed

text \<open>
  C3, as the code has it. The handler does not look at the rating: on a product the
  caller has not reviewed, the rating is converted by \<open>Number\<close> and appended whatever
  it is, and the call succeeds exactly when the save accepts the document; otherwise
  the collection is unchanged and the answer is the one of the \<open>catch\<close> block.
\<close>

theorem rating_is_not_validated:
  assumes "findById db i = Some p" and "\<forall>r \<in> set (reviews p). user r \<noteq> user_id usr"
  shows "createProductReview accepts db i usr body =
           (if accepts (add_review p usr body)
            then (SendCreated ''Review added successfully'', save (add_review p usr body) db)
            else (SendError ''Server error creating review'' None, db))
         \<and> reviews (add_review p usr body) = reviews p @ [new_review usr body]
         \<and> rating (new_review usr body) = Number (body_rating body)"
proof -
  from assms(2) have "find (\<lambda>r. user r = user_id usr) (reviews p) = None"
    by (simp add: find_None_iff)
  from review_new [OF assms(1) this] show ?thesis
    by (simp add: reviews_add_review new_review_def)
qed

theorem rating_is_not_validated_witness:
  "findById [fresh_product ''p1''] ''p1'' = Some (fresh_product ''p1'')
   \<and> createProductReview (\<lambda>d. True) [fresh_product ''p1''] ''p1''
        \<lparr>user_id = ''u1'', user_name = ''Ann''\<rparr> \<lparr>body_rating = JStr ''7'', body_comment = JStr ''a''\<rparr>
     = (SendCreated ''Review added successfully'',
        [(fresh_product ''p1'')
           \<lparr>reviews := [\<lparr>user = ''u1'', reviewer = ''Ann'', rating = Num 7, comment = JStr ''a''\<rparr>],
             numOfReviews := 1, ratings := Num 7\<rparr>])"
proof -
  have f: "findById [fresh_product ''p1''] ''p1'' = Some (fresh_product ''p1'')"
    by (simp add: findById_def fresh_product_def)
  have r: "\<forall>r \<in> set (reviews (fresh_product ''p1'')). user r \<noteq> user_id \<lparr>user_id = ''u1'', user_name = ''Ann''\<rparr>"
    by (simp add: fresh_product_def)
  have n: "Number (JStr ''7'') = Num 7"
    by (simp add: StringToNumber_def trim_def radix_literal_def str_decimal_def unsigned_decimal_def
        exponent_part_def scale10_def digits_value_def is_digit_in_def digit_val_def is_space_def Let_def)
  from rating_is_not_validated [OF f r, of "\<lambda>d. True" "\<lparr>body_rating = JStr ''7'', body_comment = JStr ''a''\<rparr>"] f n
  show ?thesis
    by (simp add: add_review_def new_review_def sum_ratings_def fresh_product_def Let_def)
qed

text \<open>
  A rating of 0 on a product without reviews. A store that accepts the document keeps
  the review, and the rating is counted; a store that refuses it makes the call fail
  with the answer of the \<open>catch\<close> block, the same as for any other failure.
\<close>

theorem rating_zero_counterexample:
  "createProductReview (\<lambda>d. True) [fresh_product ''p1''] ''p1''
        \<lparr>user_id = ''u1'', user_name = ''Ann''\<rparr> \<lparr>body_rating = JNum 0, body_comment = JStr ''a''\<rparr>
     = (SendCreated ''Review added successfully'',
        [(fresh_product ''p1'')
           \<lparr>reviews := [\<lparr>user = ''u1'', reviewer = ''Ann'', rating = Num 0, comment = JStr ''a''\<rparr>],
             numOfReviews := 1, ratings := Num 0\<rparr>])
   \<and> createProductReview (\<lambda>d. False) [fresh_product ''p1''] ''p1''
        \<lparr>user_id = ''u1'', user_name = ''Ann''\<rparr> \<lparr>body_rating = JNum 0, body_comment = JStr ''a''\<rparr>
     = (SendError ''Server error creating review'' None, [fresh_product ''p1''])"
  by (simp add: review_eval)

lemma submit_all_distinct:
  assumes "\<forall>d. accepts d" and "findById db i = Some p"
    and "distinct (map (\<lambda>c. user_id (fst c)) cs)"
    and "\<forall>c \<in> set cs. \<forall>r \<in> set (reviews p). user r \<noteq> user_id (fst c)"
  shows "\<exists>db' p'. submit_all accepts db i cs =
             (replicate (length cs) (SendCreated ''Review added successfully''), db')
           \<and> findById db' i = Some p'
           \<and> reviews p' = reviews p @ map (\<lambda>c. new_review (fst c) (snd c)) cs
           \<and> (cs \<noteq> [] \<longrightarrow> numOfReviews p' = length (reviews p')
                \<and> (\<forall>ks. map rating (reviews p') = map (\<lambda>k. Num (of_int k)) ks
                  \<and> (\<forall>k \<in> set ks. 0 \<le> k) \<and> sum_list ks < 2 ^ 53 \<longrightarrow>
                ratings p' = round_double (mean (map of_int ks))))"
  using assms(2-)
proof (induction cs arbitrary: db p)
  case Nil
  then show ?case by simp
next
  case (Cons c cs)
  obtain usr body where c: "c = (usr, body)" by (cases c)
  let ?q = "add_review p usr body"
  from Cons.prems(3) c have "find (\<lambda>r. user r = user_id usr) (reviews p) = None"
    by (auto simp: find_None_iff)
  from review_new [OF Cons.prems(1) this] assms(1)
  have step: "createProductReview accepts db i usr body =
                (SendCreated ''Review added successfully'', save ?q db)" by simp
  have "pid ?q = i" using findById_pid [OF Cons.prems(1)] by (simp add: pid_add_review)
  then have f: "findById (save ?q db) i = Some ?q"
    using findById_save [OF Cons.prems(1)] by simp
  have rq: "reviews ?q = reviews p @ [new_review usr body]"
    by (simp add: reviews_add_review new_review_def c)
  have d: "distinct (map (\<lambda>c. user_id (fst c)) cs)" using Cons.prems(2) by simp
  have fresh: "\<forall>c' \<in> set cs. \<forall>r \<in> set (reviews ?q). user r \<noteq> user_id (fst c')"
    using Cons.prems(2,3) by (auto simp: rq new_review_def c)
  from Cons.IH [OF f d fresh] obtain db' p' where
    run: "submit_all accepts (save ?q db) i cs =
             (replicate (length cs) (SendCreated ''Review added successfully''), db')"
    and f': "findById db' i = Some p'"
    and r': "reviews p' = reviews ?q @ map (\<lambda>c. new_review (fst c) (snd c)) cs"
    and s': "cs \<noteq> [] \<longrightarrow> numOfReviews p' = length (reviews p')
                \<and> (\<forall>ks. map rating (reviews p') = map (\<lambda>k. Num (of_int k)) ks
                  \<and> (\<forall>k \<in> set ks. 0 \<le> k) \<and> sum_list ks < 2 ^ 53 \<longrightarrow>
                ratings p' = round_double (mean (map of_int ks)))"
    by blast
  have run': "submit_all accepts db i (c # cs) =
             (replicate (length (c # cs)) (SendCreated ''Review added successfully''), db')"
    by (simp add: c step run)
  have r'': "reviews p' = reviews p @ map (\<lambda>c. new_review (fst c) (snd c)) (c # cs)" by (simp add: r' rq c)
  have s'': "numOfReviews p' = length (reviews p')
                \<and> (\<forall>ks. map rating (reviews p') = map (\<lambda>k. Num (of_int k)) ks
                  \<and> (\<forall>k \<in> set ks. 0 \<le> k) \<and> sum_list ks < 2 ^ 53 \<longrightarrow>
                ratings p' = round_double (mean (map of_int ks)))"
  proof (cases "cs = []")
    case True
    with run f f' have "p' = ?q" by simp
    then show ?thesis using numOfReviews_add_review ratings_add_review by blast
  next
    case False
    with s' show ?thesis by blast
  qed
  from run' f' r'' s'' show ?case by blast
qed

text \<open>
  C4, as the code has it. Nothing makes the fetch and the save of a call one step.
  Calls that run one after the other, by distinct users, on a product without reviews
  and a store that accepts every document, all succeed, and leave a product with as
  many reviews as calls and \<open>numOfReviews\<close> equal to that number; when the ratings
  are integers from 0 up with a sum below \<open>2 ^ 53\<close>, its \<open>ratings\<close> is the double
  nearest to their mean.
\<close>

theorem reviews_in_sequence:
  assumes "\<forall>d. accepts d" and "findById db i = Some p" and "reviews p = []"
    and "distinct (map (\<lambda>c. user_id (fst c)) cs)" and "cs \<noteq> []"
  shows "\<exists>db' p'. submit_all accepts db i cs =
             (replicate (length cs) (SendCreated ''Review added successfully''), db')
           \<and> findById db' i = Some p'
           \<and> length (reviews p') = length cs
           \<and> numOfReviews p' = length cs
           \<and> (\<forall>ks. map (\<lambda>c. Number (body_rating (snd c))) cs = map (\<lambda>k. Num (of_int k)) ks
                  \<and> (\<forall>k \<in> set ks. 0 \<le> k) \<and> sum_list ks < 2 ^ 53 \<longrightarrow>
                  ratings p' = round_double (mean (map of_int ks)))"
proof -
  have "\<forall>c \<in> set cs. \<forall>r \<in> set (reviews p). user r \<noteq> user_id (fst c)"
    using assms(3) by simp
  from submit_all_distinct [OF assms(1,2,4) this] assms(5) obtain db' p' where
    run: "submit_all accepts db i cs =
             (replicate (length cs) (SendCreated ''Review added successfully''), db')"
    and f': "findById db' i = Some p'"
    and r': "reviews p' = reviews p @ map (\<lambda>c. new_review (fst c) (snd c)) cs"
    and n': "numOfReviews p' = length (reviews p')"
    and m': "\<forall>ks. map rating (reviews p') = map (\<lambda>k. Num (of_int k)) ks
                  \<and> (\<forall>k \<in> set ks. 0 \<le> k) \<and> sum_list ks < 2 ^ 53 \<longrightarrow>
                ratings p' = round_double (mean (map of_int ks))"
    by blast
  have rs: "map rating (reviews p') = map (\<lambda>c. Number (body_rating (snd c))) cs"
    by (simp add: r' assms(3) new_review_def)
  have len: "length (reviews p') = length cs" by (simp add: r' assms(3))
  from run f' len n' m' rs show ?thesis by auto
qed

theorem reviews_in_sequence_witness:
  "findById [fresh_product ''p1''] ''p1'' = Some (fresh_product ''p1'')
   \<and> reviews (fresh_product ''p1'') = []
   \<and> distinct (map (\<lambda>c. user_id (fst c))
        [(\<lparr>user_id = ''u1'', user_name = ''Ann''\<rparr>, \<lparr>body_rating = JNum 5, body_comment = JStr ''a''\<rparr>),
         (\<lparr>user_id = ''u2'', user_name = ''Bob''\<rparr>, \<lparr>body_rating = JNum 3, body_comment = JStr ''b''\<rparr>)])
   \<and> (\<exists>db' p'. submit_all (\<lambda>d. True) [fresh_product ''p1''] ''p1''
        [(\<lparr>user_id = ''u1'', user_name = ''Ann''\<rparr>, \<lparr>body_rating = JNum 5, body_comment = JStr ''a''\<rparr>),
         (\<lparr>user_id = ''u2'', user_name = ''Bob''\<rparr>, \<lparr>body_rating = JNum 3, body_comment = JStr ''b''\<rparr>)]
        = ([SendCreated ''Review added successfully'', SendCreated ''Review added successfully''], db')
      \<and> findById db' ''p1'' = Some p' \<and> numOfReviews p' = 2 \<and> ratings p' = Num 4)"
proof -
  let ?cs = "[(\<lparr>user_id = ''u1'', user_name = ''Ann''\<rparr>, \<lparr>body_rating = JNum 5, body_comment = JStr ''a''\<rparr>),
         (\<lparr>user_id = ''u2'', user_name = ''Bob''\<rparr>, \<lparr>body_rating = JNum 3, body_comment = JStr ''b''\<rparr>)]"
  have a: "\<forall>d. (\<lambda>d::product. True) d" by simp
  have f: "findById [fresh_product ''p1''] ''p1'' = Some (fresh_product ''p1'')"
    by (simp add: findById_def fresh_product_def)
  have e: "reviews (fresh_product ''p1'') = []" by (simp add: fresh_product_def)
  have d: "distinct (map (\<lambda>c. user_id (fst c)) ?cs)" by simp
  have n: "?cs \<noteq> []" by simp
  have m: "map (\<lambda>c. Number (body_rating (snd c))) ?cs = map (\<lambda>k. Num (of_int k)) [5, 3]
             \<and> (\<forall>k \<in> set [5, 3 :: int]. 0 \<le> k) \<and> sum_list [5, 3 :: int] < 2 ^ 53"
    by simp
  from reviews_in_sequence [OF a f e d n] obtain db' p' where
    run: "submit_all (\<lambda>d. True) [fresh_product ''p1''] ''p1'' ?cs =
            (replicate (length ?cs) (SendCreated ''Review added successfully''), db')"
    and f': "findById db' ''p1'' = Some p'"
    and n': "numOfReviews p' = length ?cs"
    and m': "\<forall>ks. map (\<lambda>c. Number (body_rating (snd c))) ?cs = map (\<lambda>k. Num (of_int k)) ks
                  \<and> (\<forall>k \<in> set ks. 0 \<le> k) \<and> sum_list ks < 2 ^ 53 \<longrightarrow>
                  ratings p' = round_double (mean (map of_int ks))"
    by blast
  from m' m have "ratings p' = round_double (mean (map of_int [5, 3]))" by blast
  then have r: "ratings p' = Num 4" by (simp add: mean_def)
  have run': "submit_all (\<lambda>d. True) [fresh_product ''p1''] ''p1'' ?cs =
            ([SendCreated ''Review added successfully'', SendCreated ''Review added successfully''], db')"
    using run by (simp add: numeral_2_eq_2)
  from n' have n2: "numOfReviews p' = 2" by simp
  from f e d run' f' n2 r show ?thesis by blast
qed

text \<open>
  Two calls whose fetches both come before either save, on a product without
  reviews. By the same user, both calls succeed. By two users, both succeed and the
  product that is left has \<open>numOfReviews = 1\<close>.
\<close>

theorem overlapping_reviews_counterexample:
  "(case two_calls_overlapping (\<lambda>d. True) [fresh_product ''p1''] ''p1''
           \<lparr>user_id = ''u1'', user_name = ''Ann''\<rparr> \<lparr>body_rating = JNum 5, body_comment = JStr ''a''\<rparr>
           \<lparr>user_id = ''u1'', user_name = ''Ann''\<rparr> \<lparr>body_rating = JNum 3, body_comment = JStr ''b''\<rparr> of
      (r1, r2, db') \<Rightarrow> r1 = SendCreated ''Review added successfully''
                     \<and> r2 = SendCreated ''Review added successfully'')
   \<and> (case two_calls_overlapping (\<lambda>d. True) [fresh_product ''p1''] ''p1''
           \<lparr>user_id = ''u1'', user_name = ''Ann''\<rparr> \<lparr>body_rating = JNum 5, body_comment = JStr ''a''\<rparr>
           \<lparr>user_id = ''u2'', user_name = ''Bob''\<rparr> \<lparr>body_rating = JNum 3, body_comment = JStr ''b''\<rparr> of
      (r1, r2, db') \<Rightarrow> r1 = SendCreated ''Review added successfully''
                     \<and> r2 = SendCreated ''Review added successfully''
                     \<and> map numOfReviews db' = [1])"
  by (simp add: two_calls_overlapping_def review_eval)

section \<open>Properties of the query planner\<close>

lemmas parse_eval = parseInt_def parseFloat_def str_decimal_def unsigned_decimal_def
  exponent_part_def scale10_def digits_value_def is_digit_in_def digit_val_def is_space_def
  ToString_def or_default_def present_def truthy_def Let_def

lemma parseInt_undefined: "parseInt ''undefined'' = NaN"
  by (simp add: parse_eval)

lemma price_gte_eq: "price_gte a b = map_option parseFloat (present a)"
  by (auto simp: price_gte_def truthy_def present_def split: option.splits)

lemma price_lte_eq: "price_lte a b = map_option parseFloat (present b)"
  by (auto simp: price_lte_def truthy_def present_def split: option.splits)

lemma build_plan_Some:
  assumes "build_plan engine q = Some pl"
  shows "\<exists>rx. brand_regexp engine (q ''brand'') = Some rx \<and>
    pl = \<lparr>page = or_default (parseInt (ToString (q ''page''))) (Num 1),
          limit = or_default (parseInt (ToString (q ''limit''))) (Num 12),
          skip = js_mul (js_sub (or_default (parseInt (ToString (q ''page''))) (Num 1)) (Num 1))
                   (or_default (parseInt (ToString (q ''limit''))) (Num 12)),
          query = \<lparr>q_category = present (q ''category''),
                   q_brand = rx,
                   q_featured = map_option (\<lambda>f. f = ''true'') (present (q ''featured'')),
                   q_status = (case present (q ''status'') of Some s \<Rightarrow> s | None \<Rightarrow> ''active''),
                   q_price_gte = map_option parseFloat (present (q ''minPrice'')),
                   q_price_lte = map_option parseFloat (present (q ''maxPrice'')),
                   q_text_search = present (q ''search'')\<rparr>,
          sortOptions = sort_of (q ''sort'')\<rparr>"
proof (cases "brand_regexp engine (q ''brand'')")
  case None
  with assms show ?thesis by (simp add: build_plan_def Let_def)
next
  case (Some rx)
  have f: "(case present (q ''featured'') of None \<Rightarrow> None | Some f \<Rightarrow> Some (f = ''true''))
             = map_option (\<lambda>f. f = ''true'') (present (q ''featured''))"
    by (simp split: option.splits)
  from assms Some show ?thesis
    by (simp add: build_plan_def Let_def price_gte_eq price_lte_eq f)
qed

text \<open>Literals beyond the largest double are read as \<open>Infinity\<close>.\<close>

lemma Number_1e309: "Number (JStr ''1e309'') = PosInf"
proof -
  have "(2::rat) ^ 1024 \<le> 10 ^ 309" by simp
  then have "round_double (10 ^ 309) = PosInf" by (rule round_double_overflow)
  then show ?thesis
    by (simp add: StringToNumber_def trim_def radix_literal_def str_decimal_def
        unsigned_decimal_def exponent_part_def scale10_def digits_value_def is_digit_in_def
        digit_val_def is_space_def Let_def)
qed

lemma parseFloat_1e400: "parseFloat ''1e400'' = PosInf"
proof -
  have "(2::rat) ^ 1024 \<le> 10 ^ 400" by simp
  then have "round_double (10 ^ 400) = PosInf" by (rule round_double_overflow)
  then show ?thesis
    by (simp add: parse_eval)
qed



lemma getProducts_not_castable:
  assumes "build_plan engine q = Some pl" and "\<not> castable (query pl)"
  shows "getProducts engine ts sd db q = SendError ''Server error retrieving products'' None"
  using assms by (simp add: getProducts_def)

text \<open>
  C5. The request \<open>?minPrice=abc\<close>: \<open>page\<close> and \<open>limit\<close> have their defaults, but
  \<open>parseFloat\<close> of the malformed bound is \<open>NaN\<close>, it is the operand \<open>$gte\<close> of the query
  that is handed to \<open>Product.find\<close>, and the request ends in the \<open>catch\<close> block.
\<close>

theorem malformed_minPrice_reaches_query:
  "\<exists>pl. build_plan engine [''minPrice'' \<mapsto> ''abc''] = Some pl
      \<and> page pl = Num 1 \<and> limit pl = Num 12
      \<and> q_price_gte (query pl) = Some NaN
      \<and> getProducts engine ts sd db [''minPrice'' \<mapsto> ''abc'']
           = SendError ''Server error retrieving products'' None"
proof -
  have b: "brand_regexp engine ([''minPrice'' \<mapsto> ''abc''] ''brand'') = Some None"
    by (simp add: brand_regexp_def present_def)
  then obtain pl where pl: "build_plan engine [''minPrice'' \<mapsto> ''abc''] = Some pl"
    by (simp add: build_plan_def Let_def)
  from build_plan_Some [OF pl]
  have pg: "page pl = Num 1" and lm: "limit pl = Num 12"
    and g: "q_price_gte (query pl) = map_option parseFloat (present ([''minPrice'' \<mapsto> ''abc''] ''minPrice''))"
    by (auto simp: parseInt_undefined ToString_def or_default_def)
  have "parseFloat ''abc'' = NaN" by (simp add: parse_eval)
  with g have nan: "q_price_gte (query pl) = Some NaN" by (simp add: present_def)
  then have "\<not> castable (query pl)" by (simp add: castable_def)
  from getProducts_not_castable [OF pl this] pl pg lm nan show ?thesis by blast
qed



text \<open>
  The request \<open>?page=9007199254740993\<close>: \<open>parseInt\<close> rounds the page to \<open>2 ^ 53\<close>, and the
  product \<open>(2 ^ 53 - 1) * 12\<close> is rounded too.
\<close>

lemma large_page_rounds:
  "map_option (\<lambda>pl. (page pl, limit pl, skip pl))
     (build_plan (\<lambda>p. None) [''page'' \<mapsto> ''9007199254740993''])
     = Some (Num 9007199254740992, Num 12, Num 108086391056891888)"
  by (simp add: build_plan_def brand_regexp_def parse_eval js_sub_def round_double_tie
      round_double_skip)












subsection \<open>The brand filter\<close>

lemma not_syntax_char_atom: "\<not> syntax_char c \<Longrightarrow> rx_atom_of c = Lit c"
  by (auto simp: rx_atom_of_def syntax_char_def)

lemma not_syntax_char_pattern: "\<not> syntax_char c \<Longrightarrow> pattern_char c"
  by (simp add: pattern_char_def)

lemma rx_match_here_prefix:
  "list_all (\<lambda>c. \<not> syntax_char c) s \<Longrightarrow>
   rx_match_here (map rx_atom_of s) b \<longleftrightarrow> prefix (map canonicalize s) (map canonicalize b)"
proof (induction s arbitrary: b)
  case Nil
  then show ?case by simp
next
  case (Cons c s)
  then show ?case by (cases b) (auto simp: not_syntax_char_atom)
qed

lemma rx_search_sublist:
  assumes "list_all (\<lambda>c. \<not> syntax_char c) s"
  shows "rx_search (map rx_atom_of s) b \<longleftrightarrow> sublist (map canonicalize s) (map canonicalize b)"
proof (induction b)
  case Nil
  show ?case using rx_match_here_prefix [OF assms, of "[]"] by simp
next
  case (Cons x b)
  show ?case
    using rx_match_here_prefix [OF assms, of "x # b"] Cons.IH
    by (simp add: sublist_Cons_right)
qed

lemma new_RegExp_plain:
  assumes "list_all (\<lambda>c. \<not> syntax_char c) s"
  shows "new_RegExp engine s = Some (rx_search (map rx_atom_of s))"
proof -
  from assms have "list_all pattern_char s"
    by (induction s) (auto simp: not_syntax_char_pattern)
  then show ?thesis by (simp add: new_RegExp_def)
qed

lemma matches_brand_split:
  "matches ts qu p \<longleftrightarrow>
     matches ts (qu\<lparr>q_brand := None\<rparr>) p
     \<and> (case q_brand qu of None \<Rightarrow> True | Some rx \<Rightarrow> rx (brand p))"
  by (auto simp: matches_def)

text \<open>
  C8, as the code has it. A brand parameter that is not empty and has no syntax
  character of regular expressions is matched as plain text: the plan exists, and a
  product passes the filter exactly when it passes the other predicates and its
  brand contains the parameter, letters in any case; with no other parameter,
  exactly when it is active and its brand contains the parameter.
\<close>

theorem brand_filter_plain_text:
  assumes "q ''brand'' = Some s" and "s \<noteq> []" and "list_all (\<lambda>c. \<not> syntax_char c) s"
  shows "\<exists>pl. build_plan engine q = Some pl
           \<and> (\<forall>p. matches ts (query pl) p \<longleftrightarrow>
                  matches ts ((query pl)\<lparr>q_brand := None\<rparr>) p \<and> ci_substring s (brand p))
           \<and> (present (q ''category'') = None \<and> present (q ''featured'') = None
                \<and> present (q ''status'') = None \<and> present (q ''minPrice'') = None
                \<and> present (q ''maxPrice'') = None \<and> present (q ''search'') = None \<longrightarrow>
                (\<forall>p. matches ts (query pl) p \<longleftrightarrow>
                       status p = ''active'' \<and> ci_substring s (brand p)))"
proof -
  have pr: "present (q ''brand'') = Some s" using assms(1,2) by (simp add: present_def)
  have rx: "brand_regexp engine (q ''brand'') = Some (Some (rx_search (map rx_atom_of s)))"
    by (simp add: brand_regexp_def pr new_RegExp_plain [OF assms(3)])
  then obtain pl where pl: "build_plan engine q = Some pl"
    by (simp add: build_plan_def Let_def)
  from build_plan_Some [OF pl] rx
  have qb: "q_brand (query pl) = Some (rx_search (map rx_atom_of s))"
    and c: "q_category (query pl) = present (q ''category'')"
    and f: "q_featured (query pl) = map_option (\<lambda>f. f = ''true'') (present (q ''featured''))"
    and st: "q_status (query pl) = (case present (q ''status'') of Some s \<Rightarrow> s | None \<Rightarrow> ''active'')"
    and g: "q_price_gte (query pl) = map_option parseFloat (present (q ''minPrice''))"
    and l: "q_price_lte (query pl) = map_option parseFloat (present (q ''maxPrice''))"
    and t: "q_text_search (query pl) = present (q ''search'')"
    by auto
  have 1: "matches ts (query pl) p \<longleftrightarrow>
          matches ts ((query pl)\<lparr>q_brand := None\<rparr>) p \<and> ci_substring s (brand p)" for p
    using matches_brand_split [of ts "query pl" p] rx_search_sublist [OF assms(3)]
    by (simp add: qb ci_substring_def)
  have 2: "\<forall>p. matches ts (query pl) p \<longleftrightarrow> status p = ''active'' \<and> ci_substring s (brand p)"
    if n: "present (q ''category'') = None \<and> present (q ''featured'') = None
                \<and> present (q ''status'') = None \<and> present (q ''minPrice'') = None
                \<and> present (q ''maxPrice'') = None \<and> present (q ''search'') = None"
  proof
    fix p
    have "matches ts ((query pl)\<lparr>q_brand := None\<rparr>) p \<longleftrightarrow> status p = ''active''"
      using n by (simp add: matches_def c f st g l t)
    with 1 [of p] show "matches ts (query pl) p \<longleftrightarrow>
                          status p = ''active'' \<and> ci_substring s (brand p)"
      by simp
  qed
  from pl 1 2 show ?thesis by blast
qed

theorem brand_filter_plain_text_witness:
  "[''brand'' \<mapsto> ''acme''] ''brand'' = Some ''acme'' \<and> ''acme'' \<noteq> []
   \<and> list_all (\<lambda>c. \<not> syntax_char c) ''acme''
   \<and> ci_substring ''acme'' (brand (fresh_product ''a''))
   \<and> \<not> ci_substring ''acme'' (brand ((fresh_product ''b'')\<lparr>brand := ''Sony''\<rparr>))
   \<and> ci_substring [char_of (228 :: nat)] [CHR ''M'', char_of (196 :: nat), CHR ''r'']
   \<and> getProducts (\<lambda>p. None) (\<lambda>t p. True) (\<lambda>k xs. xs)
        [fresh_product ''a'', (fresh_product ''b'')\<lparr>brand := ''Sony''\<rparr>]
        [''brand'' \<mapsto> ''acme'']
     = SendSuccess ''Products retrieved successfully''
         ([fresh_product ''a''],
          \<lparr>current = Num 1, pages = Num 1, total = Num 1, hasNext = False, hasPrev = False\<rparr>)"
proof -
  let ?q = "[''brand'' \<mapsto> ''acme'']"
  have h1: "?q ''brand'' = Some ''acme''" by simp
  have h2: "''acme'' \<noteq> []" by simp
  have h3: "list_all (\<lambda>c. \<not> syntax_char c) ''acme''" by (simp add: syntax_char_def)
  have "ci_substring ''acme'' ''Acme''" by code_simp
  then have ca: "ci_substring ''acme'' (brand (fresh_product ''a''))"
    by (simp add: fresh_product_def)
  have "\<not> ci_substring ''acme'' ''Sony''" by code_simp
  then have cb: "\<not> ci_substring ''acme'' (brand ((fresh_product ''b'')\<lparr>brand := ''Sony''\<rparr>))"
    by simp
  have cl: "ci_substring [char_of (228 :: nat)] [CHR ''M'', char_of (196 :: nat), CHR ''r'']"
    by code_simp
  from brand_filter_plain_text [where q = ?q and s = "''acme''" and engine = "\<lambda>p. None"
      and ts = "\<lambda>t p. True", OF h1 h2 h3]
  obtain pl where pl: "build_plan (\<lambda>p. None) ?q = Some pl"
    and m: "\<forall>p. matches (\<lambda>t p. True) (query pl) p \<longleftrightarrow>
                  matches (\<lambda>t p. True) ((query pl)\<lparr>q_brand := None\<rparr>) p
                  \<and> ci_substring ''acme'' (brand p)"
    and i: "present (?q ''category'') = None \<and> present (?q ''featured'') = None
                \<and> present (?q ''status'') = None \<and> present (?q ''minPrice'') = None
                \<and> present (?q ''maxPrice'') = None \<and> present (?q ''search'') = None \<longrightarrow>
                (\<forall>p. matches (\<lambda>t p. True) (query pl) p \<longleftrightarrow>
                       status p = ''active'' \<and> ci_substring ''acme'' (brand p))"
    by blast
  from i have m2: "\<forall>p. matches (\<lambda>t p. True) (query pl) p \<longleftrightarrow>
                       status p = ''active'' \<and> ci_substring ''acme'' (brand p)"
    by (simp add: present_def)
  from build_plan_Some [OF pl] obtain rx where
    pl': "pl = \<lparr>page = Num 1, limit = Num 12, skip = Num 0,
             query = \<lparr>q_category = None, q_brand = rx, q_featured = None,
                      q_status = ''active'', q_price_gte = None, q_price_lte = None,
                      q_text_search = None\<rparr>,
             sortOptions = (''createdAt'', - 1)\<rparr>"
    by (auto simp: parseInt_undefined ToString_def or_default_def present_def sort_of_def
        js_sub_def)
  have "status (fresh_product ''a'') = ''active''" by (simp add: fresh_product_def)
  then have ma: "matches (\<lambda>t p. True) (query pl) (fresh_product ''a'')"
    using m2 ca by blast
  have mb: "\<not> matches (\<lambda>t p. True) (query pl) ((fresh_product ''b'')\<lparr>brand := ''Sony''\<rparr>)"
    using m2 cb by blast
  have "castable (query pl)" by (simp add: pl' castable_def)
  then have g: "getProducts (\<lambda>p. None) (\<lambda>t p. True) (\<lambda>k xs. xs)
        [fresh_product ''a'', (fresh_product ''b'')\<lparr>brand := ''Sony''\<rparr>] ?q
     = SendSuccess ''Products retrieved successfully''
         ([fresh_product ''a''],
          \<lparr>current = Num 1, pages = Num 1, total = Num 1, hasNext = False, hasPrev = False\<rparr>)"
    using ma mb by (simp add: getProducts_def pl Let_def)
      (simp add: pl' skip_limit_def as_int64_def pages_1_12 [simplified] Let_def)
  from h1 h2 h3 ca cb cl g show ?thesis by blast
qed

text \<open>
  The pattern of the one character with code 228, the small a with diaeresis, matches
  a brand that has the capital one, code 196.
\<close>

lemma brand_latin1_letters:
  "map_option (\<lambda>rx. rx [CHR ''M'', char_of (196 :: nat), CHR ''r''])
     (new_RegExp (\<lambda>p. None) [char_of (228 :: nat)]) = Some True"
  by code_simp

text \<open>
  The brand \<open>(\<close> is in \<open>Acme (UK)\<close>, but as a pattern it is a group that is never
  closed: \<open>new RegExp\<close> throws and the request ends in the \<open>catch\<close> block. The brand
  \<open>.\<close> is not in \<open>Acme\<close>, but as a pattern it matches any character, and the product
  is in the listing.
\<close>

theorem brand_pattern_counterexample:
  "ci_substring ''('' ''Acme (UK)''
   \<and> getProducts (\<lambda>p. None) (\<lambda>t p. True) (\<lambda>k xs. xs)
        [(fresh_product ''a'')\<lparr>brand := ''Acme (UK)''\<rparr>] [''brand'' \<mapsto> ''('']
     = SendError ''Server error retrieving products'' None
   \<and> \<not> ci_substring ''.'' (brand (fresh_product ''a''))
   \<and> getProducts (\<lambda>p. None) (\<lambda>t p. True) (\<lambda>k xs. xs)
        [fresh_product ''a''] [''brand'' \<mapsto> ''.'']
     = SendSuccess ''Products retrieved successfully''
         ([fresh_product ''a''],
          \<lparr>current = Num 1, pages = Num 1, total = Num 1, hasNext = False, hasPrev = False\<rparr>)"
proof -
  have 1: "ci_substring ''('' ''Acme (UK)''" by code_simp
  have "brand_regexp (\<lambda>p. None) ([''brand'' \<mapsto> ''(''] ''brand'') = None"
    by (simp add: brand_regexp_def present_def new_RegExp_def pattern_char_def syntax_char_def)
  then have "build_plan (\<lambda>p. None) [''brand'' \<mapsto> ''(''] = None"
    by (simp add: build_plan_def Let_def)
  then have 2: "getProducts (\<lambda>p. None) (\<lambda>t p. True) (\<lambda>k xs. xs)
        [(fresh_product ''a'')\<lparr>brand := ''Acme (UK)''\<rparr>] [''brand'' \<mapsto> ''('']
     = SendError ''Server error retrieving products'' None"
    by (simp add: getProducts_def)
  have "\<not> ci_substring ''.'' ''Acme''" by code_simp
  then have 3: "\<not> ci_substring ''.'' (brand (fresh_product ''a''))"
    by (simp add: fresh_product_def)
  have r: "brand_regexp (\<lambda>p. None) (Some ''.'') = Some (Some (rx_search [AnyChar]))"
    by (simp add: brand_regexp_def present_def new_RegExp_def pattern_char_def rx_atom_of_def)
  have b: "build_plan (\<lambda>p. None) [''brand'' \<mapsto> ''.'']
     = Some \<lparr>page = Num 1, limit = Num 12, skip = Num 0,
             query = \<lparr>q_category = None, q_brand = Some (rx_search [AnyChar]), q_featured = None,
                      q_status = ''active'', q_price_gte = None, q_price_lte = None,
                      q_text_search = None\<rparr>,
             sortOptions = (''createdAt'', - 1)\<rparr>"
    by (simp add: build_plan_def r price_gte_def price_lte_def sort_of_def
        parseInt_undefined ToString_def or_default_def present_def truthy_def js_sub_def)
  have ma: "matches (\<lambda>t p. True)
          \<lparr>q_category = None, q_brand = Some (rx_search [AnyChar]), q_featured = None,
           q_status = ''active'', q_price_gte = None, q_price_lte = None,
           q_text_search = None\<rparr>
          (fresh_product ''a'')"
    by (simp add: matches_def fresh_product_def)
  have 4: "getProducts (\<lambda>p. None) (\<lambda>t p. True) (\<lambda>k xs. xs)
        [fresh_product ''a''] [''brand'' \<mapsto> ''.'']
     = SendSuccess ''Products retrieved successfully''
         ([fresh_product ''a''],
          \<lparr>current = Num 1, pages = Num 1, total = Num 1, hasNext = False, hasPrev = False\<rparr>)"
    by (simp add: getProducts_def b castable_def skip_limit_def as_int64_def ma Let_def
        pages_1_12 [simplified])
  from 1 2 3 4 show ?thesis by blast
qed

section \<open>Properties of the partial update\<close>

lemma updateProduct_found:
  assumes "findById db i = Some p"
  shows "updateProduct accepts db i body =
           (if accepts (apply_update body p)
            then (SendSuccess ''Product updated successfully'' (apply_update body p),
                  save (apply_update body p) db)
            else (SendError ''Server error updating product'' None, db))"
  using assms by (simp add: updateProduct_def Let_def)

lemmas or_defs = or_string_def or_number_def or_number_opt_def or_object_def if_defined_def

text \<open>
  C9, as the code has it. A field that the body does not supply keeps its value.
  \<open>stock\<close> and \<open>featured\<close> take every supplied value, 0 and \<open>false\<close> too. The arrays
  and the object take every supplied value. A string field takes a supplied string
  that is not empty, and a number field a supplied number that is not 0; the empty
  string and 0 leave the stored value. The fields that the body cannot name are
  untouched.
\<close>

theorem update_is_partial:
  assumes "findById db i = Some p" and "accepts (apply_update body p)"
  shows "\<exists>p'. updateProduct accepts db i body =
                 (SendSuccess ''Product updated successfully'' p', save p' db)
     \<and> (new_name body = None \<or> new_name body = Some [] \<longrightarrow> name p' = name p)
     \<and> (\<forall>v. new_name body = Some v \<and> v \<noteq> [] \<longrightarrow> name p' = v)
     \<and> (new_description body = None \<or> new_description body = Some [] \<longrightarrow>
          description p' = description p)
     \<and> (\<forall>v. new_description body = Some v \<and> v \<noteq> [] \<longrightarrow> description p' = v)
     \<and> (new_price body = None \<or> new_price body = Some 0 \<longrightarrow> price p' = price p)
     \<and> (\<forall>v. new_price body = Some v \<and> v \<noteq> 0 \<longrightarrow> price p' = v)
     \<and> (new_discountPrice body = None \<or> new_discountPrice body = Some 0 \<longrightarrow>
          discountPrice p' = discountPrice p)
     \<and> (\<forall>v. new_discountPrice body = Some v \<and> v \<noteq> 0 \<longrightarrow> discountPrice p' = Some v)
     \<and> (new_category body = None \<or> new_category body = Some [] \<longrightarrow> category p' = category p)
     \<and> (\<forall>v. new_category body = Some v \<and> v \<noteq> [] \<longrightarrow> category p' = v)
     \<and> (new_brand body = None \<or> new_brand body = Some [] \<longrightarrow> brand p' = brand p)
     \<and> (\<forall>v. new_brand body = Some v \<and> v \<noteq> [] \<longrightarrow> brand p' = v)
     \<and> (new_status body = None \<or> new_status body = Some [] \<longrightarrow> status p' = status p)
     \<and> (\<forall>v. new_status body = Some v \<and> v \<noteq> [] \<longrightarrow> status p' = v)
     \<and> (new_images body = None \<longrightarrow> images p' = images p)
     \<and> (\<forall>v. new_images body = Some v \<longrightarrow> images p' = v)
     \<and> (new_specifications body = None \<longrightarrow> specifications p' = specifications p)
     \<and> (\<forall>v. new_specifications body = Some v \<longrightarrow> specifications p' = v)
     \<and> (new_tags body = None \<longrightarrow> tags p' = tags p)
     \<and> (\<forall>v. new_tags body = Some v \<longrightarrow> tags p' = v)
     \<and> (new_stock body = None \<longrightarrow> stock p' = stock p)
     \<and> (\<forall>v. new_stock body = Some v \<longrightarrow> stock p' = v)
     \<and> (new_featured body = None \<longrightarrow> featured p' = featured p)
     \<and> (\<forall>v. new_featured body = Some v \<longrightarrow> featured p' = v)
     \<and> pid p' = pid p \<and> ratings p' = ratings p \<and> numOfReviews p' = numOfReviews p
     \<and> reviews p' = reviews p \<and> createdBy p' = createdBy p \<and> createdAt p' = createdAt p"
proof -
  let ?p = "apply_update body p"
  have u: "updateProduct accepts db i body =
                 (SendSuccess ''Product updated successfully'' ?p, save ?p db)"
    using updateProduct_found [OF assms(1)] assms(2) by simp
  have s1: "new_name body = None \<or> new_name body = Some [] \<longrightarrow> name ?p = name p"
    and s2: "\<forall>v. new_name body = Some v \<and> v \<noteq> [] \<longrightarrow> name ?p = v"
    and s3: "new_description body = None \<or> new_description body = Some [] \<longrightarrow>
          description ?p = description p"
    and s4: "\<forall>v. new_description body = Some v \<and> v \<noteq> [] \<longrightarrow> description ?p = v"
    and s5: "new_category body = None \<or> new_category body = Some [] \<longrightarrow> category ?p = category p"
    and s6: "\<forall>v. new_category body = Some v \<and> v \<noteq> [] \<longrightarrow> category ?p = v"
    and s7: "new_brand body = None \<or> new_brand body = Some [] \<longrightarrow> brand ?p = brand p"
    and s8: "\<forall>v. new_brand body = Some v \<and> v \<noteq> [] \<longrightarrow> brand ?p = v"
    and s9: "new_status body = None \<or> new_status body = Some [] \<longrightarrow> status ?p = status p"
    and s10: "\<forall>v. new_status body = Some v \<and> v \<noteq> [] \<longrightarrow> status ?p = v"
    by (auto simp: apply_update_def or_string_def)
  have n1: "new_price body = None \<or> new_price body = Some 0 \<longrightarrow> price ?p = price p"
    and n2: "\<forall>v. new_price body = Some v \<and> v \<noteq> 0 \<longrightarrow> price ?p = v"
    and n3: "new_discountPrice body = None \<or> new_discountPrice body = Some 0 \<longrightarrow>
          discountPrice ?p = discountPrice p"
    and n4: "\<forall>v. new_discountPrice body = Some v \<and> v \<noteq> 0 \<longrightarrow> discountPrice ?p = Some v"
    by (auto simp: apply_update_def or_number_def or_number_opt_def)
  have o1: "new_images body = None \<longrightarrow> images ?p = images p"
    and o2: "\<forall>v. new_images body = Some v \<longrightarrow> images ?p = v"
    and o3: "new_specifications body = None \<longrightarrow> specifications ?p = specifications p"
    and o4: "\<forall>v. new_specifications body = Some v \<longrightarrow> specifications ?p = v"
    and o5: "new_tags body = None \<longrightarrow> tags ?p = tags p"
    and o6: "\<forall>v. new_tags body = Some v \<longrightarrow> tags ?p = v"
    by (auto simp: apply_update_def or_object_def)
  have d1: "new_stock body = None \<longrightarrow> stock ?p = stock p"
    and d2: "\<forall>v. new_stock body = Some v \<longrightarrow> stock ?p = v"
    and d3: "new_featured body = None \<longrightarrow> featured ?p = featured p"
    and d4: "\<forall>v. new_featured body = Some v \<longrightarrow> featured ?p = v"
    by (auto simp: apply_update_def if_defined_def)
  have f1: "pid ?p = pid p" and f2: "ratings ?p = ratings p"
    and f3: "numOfReviews ?p = numOfReviews p" and f4: "reviews ?p = reviews p"
    and f5: "createdBy ?p = createdBy p" and f6: "createdAt ?p = createdAt p"
    by (simp_all add: apply_update_def)
  show ?thesis
    apply (rule exI [of _ ?p])
    using u s1 s2 s3 s4 s5 s6 s7 s8 s9 s10 n1 n2 n3 n4 o1 o2 o3 o4 o5 o6 d1 d2 d3 d4 f1 f2 f3 f4 f5 f6
    apply (intro conjI)
    apply assumption+
    done
qed

theorem update_is_partial_witness:
  "findById [(fresh_product ''p1'')\<lparr>featured := True\<rparr>] ''p1''
     = Some ((fresh_product ''p1'')\<lparr>featured := True\<rparr>)
   \<and> updateProduct (\<lambda>d. True) [(fresh_product ''p1'')\<lparr>featured := True\<rparr>] ''p1''
        (no_fields\<lparr>new_price := Some 120, new_stock := Some 0, new_featured := Some False\<rparr>)
     = (SendSuccess ''Product updated successfully''
          ((fresh_product ''p1'')\<lparr>price := 120, stock := 0\<rparr>),
        [(fresh_product ''p1'')\<lparr>price := 120, stock := 0\<rparr>])"
proof -
  let ?p = "(fresh_product ''p1'')\<lparr>featured := True\<rparr>"
  let ?body = "no_fields\<lparr>new_price := Some 120, new_stock := Some 0, new_featured := Some False\<rparr>"
  have f: "findById [?p] ''p1'' = Some ?p"
    by (simp add: findById_def fresh_product_def)
  have a: "(\<lambda>d::product. True) (apply_update ?body ?p)"
    by simp
  have e: "apply_update ?body ?p = (fresh_product ''p1'')\<lparr>price := 120, stock := 0\<rparr>"
    by (simp add: apply_update_def no_fields_def or_defs fresh_product_def)
  have s: "save ((fresh_product ''p1'')\<lparr>price := 120, stock := 0\<rparr>) [?p]
             = [(fresh_product ''p1'')\<lparr>price := 120, stock := 0\<rparr>]"
    by (simp add: fresh_product_def)
  from update_is_partial [OF f, where accepts = "\<lambda>d. True" and body = ?body, OF a]
  obtain p' where u: "updateProduct (\<lambda>d. True) [?p] ''p1'' ?body
     = (SendSuccess ''Product updated successfully'' p', save p' [?p])"
    by (elim exE conjE) (rule that)
  have "updateProduct (\<lambda>d. True) [?p] ''p1'' ?body
     = (SendSuccess ''Product updated successfully'' (apply_update ?body ?p),
        save (apply_update ?body ?p) [?p])"
    using updateProduct_found [OF f, of "\<lambda>d. True" ?body] by simp
  with u have "p' = apply_update ?body ?p" by simp
  with u e s f show ?thesis by simp
qed

text \<open>
  A body with \<open>price: 0\<close> and \<open>description: ''\<close> on a product with price 100: the call
  succeeds and the product is what it was.
\<close>

theorem falsy_update_counterexample:
  "price (fresh_product ''p1'') = 100 \<and> description (fresh_product ''p1'') = ''A desk lamp''
   \<and> updateProduct (\<lambda>d. True) [fresh_product ''p1''] ''p1''
        (no_fields\<lparr>new_price := Some 0, new_description := Some ''''\<rparr>)
     = (SendSuccess ''Product updated successfully'' (fresh_product ''p1''),
        [fresh_product ''p1''])"
proof -
  have f: "findById [fresh_product ''p1''] ''p1'' = Some (fresh_product ''p1'')"
    by (simp add: findById_def fresh_product_def)
  have e: "apply_update (no_fields\<lparr>new_price := Some 0, new_description := Some ''''\<rparr>)
             (fresh_product ''p1'') = fresh_product ''p1''"
    by (simp add: apply_update_def no_fields_def or_defs fresh_product_def)
  have pd: "price (fresh_product ''p1'') = 100"
    "description (fresh_product ''p1'') = ''A desk lamp''"
    by (simp_all add: fresh_product_def)
  from updateProduct_found [OF f, of "\<lambda>d. True"
      "no_fields\<lparr>new_price := Some 0, new_description := Some ''''\<rparr>"] e pd
  show ?thesis by simp
qed

end
